theory Spec2Isabelle
  imports Complex_Main
begin

section \<open>JavaScript values\<close>

text \<open>
  The service handles JSON data (payout rows, ledger results) and the strings of
  \<^verbatim>\<open>process.env\<close>. A string of the model is a list of code units below 256. A finite
  number is the real it denotes (the service computes only with the in-flight counter,
  an integer); \<open>+0\<close> and \<open>-0\<close> are both \<open>Fin 0\<close>.
\<close>

datatype jsnum = NaN | PosInf | NegInf | Fin real

datatype jsval =
    JUndefined
  | JNull
  | JBool bool
  | JNum jsnum
  | JStr string
  | JArr "jsval list"
  | JObj "(string \<times> jsval) list"

text \<open>
  A thrown value: an \<^verbatim>\<open>Error\<close> object, as the program, the runtime and the libraries it
  calls throw, with its \<^verbatim>\<open>name\<close>, its \<^verbatim>\<open>message\<close> and what its \<^verbatim>\<open>toString\<close> method gives,
  which is what \<^verbatim>\<open>String(err)\<close> gives. The method is part of the value: a class of errors may
  define its own.
\<close>

datatype js_error = JsError (err_name: string) (err_message: string) (err_toString: string)

text \<open>\<^verbatim>\<open>Error.prototype.toString\<close>, the method of the errors of the language.\<close>

definition Error_toString :: "string \<Rightarrow> string \<Rightarrow> string" where
  "Error_toString name msg =
     (if name = [] then msg
      else if msg = [] then name
      else name @ '': '' @ msg)"

definition new_Error :: "string \<Rightarrow> js_error" where
  "new_Error msg = JsError ''Error'' msg (Error_toString ''Error'' msg)"

definition TypeError :: "string \<Rightarrow> js_error" where
  "TypeError msg = JsError ''TypeError'' msg (Error_toString ''TypeError'' msg)"

definition SyntaxError :: "string \<Rightarrow> js_error" where
  "SyntaxError msg = JsError ''SyntaxError'' msg (Error_toString ''SyntaxError'' msg)"

text \<open>
  An error of the xrpl library (\<^verbatim>\<open>XrplError\<close> and its subclasses \<^verbatim>\<open>ValidationError\<close>,
  \<^verbatim>\<open>NotConnectedError\<close>, ...) thrown with no data: the class has a \<^verbatim>\<open>toString\<close> of its own,
  which gives \<^verbatim>\<open>[name(message)]\<close>.
\<close>

definition XrplError :: "string \<Rightarrow> string \<Rightarrow> js_error" where
  "XrplError name msg = JsError name msg (''['' @ name @ ''('' @ msg @ '')]'')"

text \<open>A value of \<^verbatim>\<open>process.env\<close>: a string, or undefined when the variable is not set.\<close>

definition env_val :: "string option \<Rightarrow> jsval" where
  "env_val v = (case v of None \<Rightarrow> JUndefined | Some s \<Rightarrow> JStr s)"

text \<open>\<^verbatim>\<open>`${v}`\<close> for such a value.\<close>

definition template :: "string option \<Rightarrow> string" where
  "template v = (case v of None \<Rightarrow> ''undefined'' | Some s \<Rightarrow> s)"

fun num_truthy :: "jsnum \<Rightarrow> bool" where
  "num_truthy NaN = False"
| "num_truthy (Fin r) = (r \<noteq> 0)"
| "num_truthy _ = True"

text \<open>ToBoolean: what \<^verbatim>\<open>!x\<close>, \<^verbatim>\<open>x || y\<close> and \<^verbatim>\<open>filter(Boolean)\<close> test.\<close>

fun truthy :: "jsval \<Rightarrow> bool" where
  "truthy JUndefined = False"
| "truthy JNull = False"
| "truthy (JBool b) = b"
| "truthy (JNum n) = num_truthy n"
| "truthy (JStr s) = (s \<noteq> [])"
| "truthy (JArr _) = True"
| "truthy (JObj _) = True"

text \<open>\<^verbatim>\<open>a || b\<close> on values already computed (the right operands in this program have no effects).\<close>

definition js_or :: "jsval \<Rightarrow> jsval \<Rightarrow> jsval" where
  "js_or a b = (if truthy a then a else b)"

text \<open>\<^verbatim>\<open>x == null\<close>: true for null and undefined only.\<close>

fun nullish :: "jsval \<Rightarrow> bool" where
  "nullish JUndefined = True"
| "nullish JNull = True"
| "nullish _ = False"

text \<open>
  Reading a property of a value that is not null or undefined. The names this program
  reads (\<^verbatim>\<open>id\<close>, \<^verbatim>\<open>amount\<close>, \<^verbatim>\<open>result\<close>, \<^verbatim>\<open>hash\<close>, ...) are not inherited from a prototype, so
  only an object has them.
\<close>

fun get_prop :: "jsval \<Rightarrow> string \<Rightarrow> jsval" where
  "get_prop (JObj kvs) k = (case map_of kvs k of None \<Rightarrow> JUndefined | Some v \<Rightarrow> v)"
| "get_prop _ k = JUndefined"

text \<open>\<^verbatim>\<open>v?.k\<close>: undefined when \<open>v\<close> is null or undefined.\<close>

definition opt_get :: "jsval \<Rightarrow> string \<Rightarrow> jsval" where
  "opt_get v k = (if nullish v then JUndefined else get_prop v k)"

text \<open>\<^verbatim>\<open>v.k\<close>: a TypeError when \<open>v\<close> is null or undefined (the message is V8's).\<close>

definition cannot_read :: "jsval \<Rightarrow> string \<Rightarrow> js_error" where
  "cannot_read v k =
     TypeError (''Cannot read properties of '' @ (if v = JNull then ''null'' else ''undefined'')
                @ '' (reading '' @ [CHR 0x27] @ k @ [CHR 0x27] @ '')'')"

definition get_member :: "jsval \<Rightarrow> string \<Rightarrow> js_error + jsval" where
  "get_member v k = (if nullish v then Inl (cannot_read v k) else Inr (get_prop v k))"

subsection \<open>Integers as text\<close>

definition digit :: "nat \<Rightarrow> char" where
  "digit d = ''0123456789'' ! d"

fun decimal :: "nat \<Rightarrow> string" where
  "decimal n = (if n < 10 then [digit n] else decimal (n div 10) @ [digit (n mod 10)])"

declare decimal.simps [simp del]

definition int_to_string :: "int \<Rightarrow> string" where
  "int_to_string i = (if i < 0 then ''-'' @ decimal (nat (- i)) else decimal (nat i))"

section \<open>The outside world\<close>

text \<open>
  How a call ends within the run observed: it returns, it throws, or (an awaited call
  only) its promise has not settled when the observation ends.
\<close>

datatype 'a completion = Normal 'a | Throw js_error | Suspended

text \<open>
  A \<^verbatim>\<open>Response\<close> of \<^verbatim>\<open>fetch\<close>: its status, and what \<^verbatim>\<open>res.text()\<close> and \<^verbatim>\<open>res.json()\<close>
  give (either may reject). \<^verbatim>\<open>res.ok\<close> is defined by the Fetch standard as a status in 200..299.
\<close>

record response =
  res_status :: nat
  res_text :: "js_error + string"
  res_json :: "js_error + jsval"

definition res_ok :: "response \<Rightarrow> bool" where
  "res_ok res \<longleftrightarrow> 200 \<le> res_status res \<and> res_status res \<le> 299"

text \<open>
  Every call that leaves the program, with its arguments and how it ended. A client
  object is named by the URL it was constructed with, the wallet by its classic address.
  The \<^verbatim>\<open>body\<close> of a \<^verbatim>\<open>fetch\<close> is kept as the value handed to \<^verbatim>\<open>JSON.stringify\<close>.
\<close>

datatype event =
    ConsoleLog "jsval list"
  | ConsoleError "jsval list"
  | NewClient jsval "unit completion"
  | Connect jsval "unit completion"
  | IsConnected jsval "bool completion"
  | Fetch jsval jsval "response completion"
  | XrpToDrops string "string completion"
  | Autofill jsval jsval "jsval completion"
  | Sign string jsval "jsval completion"
  | SubmitAndWait jsval jsval "jsval completion"
  | SetTimeout string nat
  | Respond nat jsval

text \<open>
  What the JavaScript runtime, the xrpl library and the network do is not defined in
  this repository; it is a parameter of every function below.
  \<^item> \<open>StringToNumber\<close>: \<^verbatim>\<open>Number(s)\<close> on a string;
  \<^item> \<open>fraction_to_string\<close>: \<^verbatim>\<open>String(n)\<close> on a number that is not an integer of magnitude
    at most \<open>2^53\<close> (such an integer is a number of the language exactly and is printed
    with all its decimal digits; beyond, the digits printed are the shortest that give
    the number back);
  \<^item> \<open>xrpToDrops\<close>: \<^verbatim>\<open>xrpl.xrpToDrops\<close>, which throws on an amount it does not accept;
  \<^item> \<open>wallet_sign\<close>: \<^verbatim>\<open>wallet.sign\<close> of the wallet with the given address;
  \<^item> the others answer a call from the calls made so far (the first argument) and the
    call's arguments, so the answer to one call may depend on everything before it.
\<close>

record env =
  StringToNumber :: "string \<Rightarrow> jsnum"
  fraction_to_string :: "real \<Rightarrow> string"
  xrpToDrops :: "string \<Rightarrow> js_error + string"
  wallet_sign :: "string \<Rightarrow> jsval \<Rightarrow> js_error + jsval"
  Client_new :: "event list \<Rightarrow> jsval \<Rightarrow> js_error + unit"
  Client_connect :: "event list \<Rightarrow> jsval \<Rightarrow> unit completion"
  Client_isConnected :: "event list \<Rightarrow> jsval \<Rightarrow> bool"
  Client_autofill :: "event list \<Rightarrow> jsval \<Rightarrow> jsval \<Rightarrow> jsval completion"
  Client_submitAndWait :: "event list \<Rightarrow> jsval \<Rightarrow> jsval \<Rightarrow> jsval completion"
  fetch :: "event list \<Rightarrow> jsval \<Rightarrow> jsval \<Rightarrow> response completion"

section \<open>Conversions\<close>

definition num_to_string :: "env \<Rightarrow> jsnum \<Rightarrow> string" where
  "num_to_string rt n =
     (case n of
        NaN \<Rightarrow> ''NaN''
      | PosInf \<Rightarrow> ''Infinity''
      | NegInf \<Rightarrow> ''-Infinity''
      | Fin r \<Rightarrow>
          if r = of_int \<lfloor>r\<rfloor> \<and> \<bar>r\<bar> \<le> 2 ^ 53 then int_to_string \<lfloor>r\<rfloor>
          else fraction_to_string rt r)"

fun join :: "string \<Rightarrow> string list \<Rightarrow> string" where
  "join sep [] = []"
| "join sep [x] = x"
| "join sep (x # y # zs) = x @ sep @ join sep (y # zs)"

text \<open>\<^verbatim>\<open>String(v)\<close> and \<^verbatim>\<open>`${v}`\<close>; an array joins its elements with commas, null and undefined as empty.\<close>

fun js_String :: "env \<Rightarrow> jsval \<Rightarrow> string" where
  "js_String rt JUndefined = ''undefined''"
| "js_String rt JNull = ''null''"
| "js_String rt (JBool b) = (if b then ''true'' else ''false'')"
| "js_String rt (JNum n) = num_to_string rt n"
| "js_String rt (JStr s) = s"
| "js_String rt (JArr xs) = join '','' (map (\<lambda>x. if nullish x then [] else js_String rt x) xs)"
| "js_String rt (JObj kvs) = ''[object Object]''"

text \<open>\<^verbatim>\<open>Number(v)\<close>.\<close>

fun js_Number :: "env \<Rightarrow> jsval \<Rightarrow> jsnum" where
  "js_Number rt JUndefined = NaN"
| "js_Number rt JNull = Fin 0"
| "js_Number rt (JBool b) = (if b then Fin 1 else Fin 0)"
| "js_Number rt (JNum n) = n"
| "js_Number rt (JStr s) = StringToNumber rt s"
| "js_Number rt (JArr xs) = StringToNumber rt (js_String rt (JArr xs))"
| "js_Number rt (JObj kvs) = NaN"

text \<open>\<^verbatim>\<open>i >= n\<close> for an integer \<open>i\<close>: false against NaN.\<close>

fun js_ge :: "int \<Rightarrow> jsnum \<Rightarrow> bool" where
  "js_ge i NaN = False"
| "js_ge i PosInf = False"
| "js_ge i NegInf = True"
| "js_ge i (Fin r) = (r \<le> of_int i)"

text \<open>
  \<^verbatim>\<open>for (const x of v)\<close>: an array gives its elements, a string its characters; the rest is
  not iterable (the message is V8's, with the name of the variable).
\<close>

fun iterate :: "string \<Rightarrow> jsval \<Rightarrow> js_error + jsval list" where
  "iterate name (JArr xs) = Inr xs"
| "iterate name (JStr s) = Inr (map (\<lambda>c. JStr [c]) s)"
| "iterate name _ = Inl (TypeError (name @ '' is not iterable''))"

subsection \<open>Strings\<close>

text \<open>\<^verbatim>\<open>s.split(",")\<close>: the empty string gives one empty piece.\<close>

fun split :: "char \<Rightarrow> string \<Rightarrow> string list" where
  "split sep [] = [[]]"
| "split sep (c # cs) =
     (if c = sep then [] # split sep cs
      else (case split sep cs of [] \<Rightarrow> [[c]] | w # ws \<Rightarrow> (c # w) # ws))"

definition is_space :: "char \<Rightarrow> bool" where
  "is_space c \<longleftrightarrow> c \<in> set [CHR 0x09, CHR 0x0A, CHR 0x0B, CHR 0x0C, CHR 0x0D, CHR 0x20, CHR 0xA0]"

definition trim :: "string \<Rightarrow> string" where
  "trim s = rev (dropWhile is_space (rev (dropWhile is_space s)))"

section \<open>Configuration and process state\<close>

text \<open>
  The variables of \<^verbatim>\<open>process.env\<close> that the functions below read: each is a string or
  not set. \<^verbatim>\<open>MAX_CONCURRENT\<close> has the default \<^verbatim>\<open>"2"\<close> when it is not set. The wallet seed
  and the polling interval are read at boot only, which sets the variable \<^verbatim>\<open>wallet\<close> and
  the timer; here the wallet is part of the state a run starts in.
\<close>

record config =
  SUPABASE_URL :: "string option"
  SUPABASE_SERVICE_ROLE_KEY :: "string option"
  SUPABASE_WEBHOOK_URL :: "string option"
  XRPL_SERVERS :: "string option"
  XRPL_SERVER :: "string option"
  MAX_CONCURRENT_env :: "string option"
  CONTROL_BEARER_TOKEN :: "string option"

definition MAX_CONCURRENT :: "config \<Rightarrow> string" where
  "MAX_CONCURRENT cfg = (case MAX_CONCURRENT_env cfg of None \<Rightarrow> ''2'' | Some v \<Rightarrow> v)"

text \<open>
  \<^verbatim>\<open>WS_DEFAULTS\<close>: the first truthy operand of the \<^verbatim>\<open>||\<close> chain. The optional chain on
  \<^verbatim>\<open>XRPL_SERVERS\<close> is undefined when the variable is not set; an array is truthy.
\<close>

definition WS_DEFAULTS :: "config \<Rightarrow> jsval" where
  "WS_DEFAULTS cfg =
     js_or
       (js_or
          (case XRPL_SERVERS cfg of
             None \<Rightarrow> JUndefined
           | Some v \<Rightarrow> JArr (filter truthy (map (\<lambda>s. JStr (trim s)) (split CHR '','' v))))
          (JArr (filter truthy [env_val (XRPL_SERVER cfg)])))
       (JArr [JStr ''wss://xrplcluster.com'', JStr ''wss://s2.ripple.com'', JStr ''wss://s1.ripple.com''])"

text \<open>
  The module's variables \<^verbatim>\<open>client\<close>, \<^verbatim>\<open>wallet\<close> and \<^verbatim>\<open>inFlight\<close> (\<open>None\<close> is undefined),
  and the calls made so far, oldest first.
\<close>

record world =
  client :: "jsval option"
  wallet :: "string option"
  inFlight :: int
  trace :: "event list"

section \<open>Control flow\<close>

text \<open>
  A piece of program takes the state and gives how it ended and the state then. An
  \<^verbatim>\<open>await\<close> is a call answered by the environment; when the answer is \<open>Suspended\<close> the
  run observed ends there: nothing after the \<^verbatim>\<open>await\<close> has run, no handler and no
  \<^verbatim>\<open>finally\<close> block either.
\<close>

type_synonym 'a prog = "world \<Rightarrow> 'a completion \<times> world"

definition return :: "'a \<Rightarrow> 'a prog" where
  "return x s = (Normal x, s)"

definition throw :: "js_error \<Rightarrow> 'a prog" where
  "throw e s = (Throw e, s)"

definition bind :: "'a prog \<Rightarrow> ('a \<Rightarrow> 'b prog) \<Rightarrow> 'b prog" where
  "bind m f s =
     (case m s of
        (Normal x, s') \<Rightarrow> f x s'
      | (Throw e, s') \<Rightarrow> (Throw e, s')
      | (Suspended, s') \<Rightarrow> (Suspended, s'))"

definition try_catch :: "'a prog \<Rightarrow> (js_error \<Rightarrow> 'a prog) \<Rightarrow> 'a prog" where
  "try_catch m handler s =
     (case m s of
        (Throw e, s') \<Rightarrow> handler e s'
      | (Normal x, s') \<Rightarrow> (Normal x, s')
      | (Suspended, s') \<Rightarrow> (Suspended, s'))"

definition try_finally :: "'a prog \<Rightarrow> unit prog \<Rightarrow> 'a prog" where
  "try_finally m fin s =
     (case m s of
        (Suspended, s') \<Rightarrow> (Suspended, s')
      | (c, s') \<Rightarrow>
          (case fin s' of
             (Normal _, s'') \<Rightarrow> (c, s'')
           | (Throw e, s'') \<Rightarrow> (Throw e, s'')
           | (Suspended, s'') \<Rightarrow> (Suspended, s'')))"

definition of_sum :: "js_error + 'a \<Rightarrow> 'a completion" where
  "of_sum r = (case r of Inl e \<Rightarrow> Throw e | Inr x \<Rightarrow> Normal x)"

definition lift :: "js_error + 'a \<Rightarrow> 'a prog" where
  "lift r s = (of_sum r, s)"

definition read :: "(world \<Rightarrow> 'a) \<Rightarrow> 'a prog" where
  "read f s = (Normal (f s), s)"

definition modify :: "(world \<Rightarrow> world) \<Rightarrow> unit prog" where
  "modify f s = (Normal (), f s)"

text \<open>A call out of the program: asked with the calls so far, recorded with its answer.\<close>

definition call :: "(event list \<Rightarrow> 'a completion) \<Rightarrow> ('a completion \<Rightarrow> event) \<Rightarrow> 'a prog" where
  "call answer ev s = (let r = answer (trace s) in (r, s\<lparr>trace := trace s @ [ev r]\<rparr>))"

definition emit :: "event \<Rightarrow> unit prog" where
  "emit ev s = (Normal (), s\<lparr>trace := trace s @ [ev]\<rparr>)"

definition console_log :: "jsval list \<Rightarrow> unit prog" where
  "console_log args = emit (ConsoleLog args)"

definition console_error :: "jsval list \<Rightarrow> unit prog" where
  "console_error args = emit (ConsoleError args)"

text \<open>
  The environment as a call that is not awaited sees it: the callee runs up to its
  first \<^verbatim>\<open>await\<close>, and no promise settles before control is back at the caller.
\<close>

definition unawaited :: "env \<Rightarrow> env" where
  "unawaited env =
     env\<lparr>Client_connect := \<lambda>h c. Suspended,
         Client_autofill := \<lambda>h c tx. Suspended,
         Client_submitAndWait := \<lambda>h c blob. Suspended,
         fetch := \<lambda>h url init. Suspended\<rparr>"

text \<open>
  Calling an async function without \<^verbatim>\<open>await\<close>: the caller gets a promise it drops, so
  neither the result nor a rejection reaches it.
\<close>

definition no_await :: "'a prog \<Rightarrow> unit prog" where
  "no_await m s = (Normal (), snd (m s))"

section \<open>The service\<close>

definition supabaseHeaders :: "config \<Rightarrow> jsval" where
  "supabaseHeaders cfg =
     JObj [(''apikey'', env_val (SUPABASE_SERVICE_ROLE_KEY cfg)),
           (''Authorization'', JStr (''Bearer '' @ template (SUPABASE_SERVICE_ROLE_KEY cfg))),
           (''Content-Type'', JStr ''application/json'')]"

text \<open>
  The loop of \<^verbatim>\<open>connectClient\<close> over the endpoints left. The body of the \<^verbatim>\<open>try\<close> gives
  \<open>True\<close> where the source returns from the function, its handler \<open>False\<close>.
\<close>

fun connect_loop :: "env \<Rightarrow> jsval list \<Rightarrow> unit prog" where
  "connect_loop env [] = throw (new_Error ''No XRPL server reachable'')"
| "connect_loop env (url # urls) =
     bind
       (try_catch
          (bind (call (\<lambda>h. of_sum (Client_new env h url)) (NewClient url)) (\<lambda>_.
           bind (call (\<lambda>h. Client_connect env h url) (Connect url)) (\<lambda>_.
           bind (modify (\<lambda>s. s\<lparr>client := Some url\<rparr>)) (\<lambda>_.
           bind (console_log [JStr ''[XRPL] Connected:'', url]) (\<lambda>_.
           return True)))))
          (\<lambda>e. bind (console_error [JStr ''[XRPL] Failed:'', url, JStr (err_message e)]) (\<lambda>_.
                return False)))
       (\<lambda>connected. if connected then return () else connect_loop env urls)"

definition connectClient :: "env \<Rightarrow> config \<Rightarrow> unit prog" where
  "connectClient env cfg = bind (lift (iterate ''WS_DEFAULTS'' (WS_DEFAULTS cfg))) (connect_loop env)"

text \<open>
  \<^verbatim>\<open>fetchQueued(limit = 5)\<close>: \<open>None\<close> is a call without the argument. \<^verbatim>\<open>fetch\<close> without a
  method is a GET.
\<close>

definition fetchQueued_url :: "env \<Rightarrow> config \<Rightarrow> jsnum \<Rightarrow> string" where
  "fetchQueued_url env cfg limit =
     template (SUPABASE_URL cfg)
     @ ''/rest/v1/payout_requests?status=eq.queued&chain=eq.XRP&order=requested_at.asc&limit=''
     @ num_to_string env limit"

definition fetchQueued :: "env \<Rightarrow> config \<Rightarrow> jsnum option \<Rightarrow> jsval prog" where
  "fetchQueued env cfg limit_arg =
     (let limit = (case limit_arg of None \<Rightarrow> Fin 5 | Some n \<Rightarrow> n);
          url = JStr (fetchQueued_url env cfg limit);
          init = JObj [(''headers'', supabaseHeaders cfg)]
      in bind (call (\<lambda>h. fetch env h url init) (Fetch url init)) (\<lambda>res.
         if \<not> res_ok res then
           bind (lift (res_text res)) (\<lambda>t.
           throw (new_Error (''Fetch queued failed: '' @ decimal (res_status res) @ '' '' @ t)))
         else lift (res_json res)))"

definition webhook_init :: "jsval \<Rightarrow> jsval" where
  "webhook_init body =
     JObj [(''method'', JStr ''POST''),
           (''headers'', JObj [(''Content-Type'', JStr ''application/json'')]),
           (''body'', body)]"

definition postWebhook :: "env \<Rightarrow> config \<Rightarrow> jsval \<Rightarrow> jsval prog" where
  "postWebhook env cfg body =
     (let url = env_val (SUPABASE_WEBHOOK_URL cfg); init = webhook_init body
      in bind (call (\<lambda>h. fetch env h url init) (Fetch url init)) (\<lambda>res.
         if \<not> res_ok res then
           bind (lift (res_text res)) (\<lambda>t.
           throw (new_Error (''Webhook failed: '' @ decimal (res_status res) @ '' '' @ t)))
         else try_catch (lift (res_json res)) (\<lambda>_. return (JObj [(''ok'', JBool True)]))))"

text \<open>
  \<^verbatim>\<open>const { id, wallet_address, amount, destination_tag, webhook_secret } = row\<close>:
  a TypeError when the row is null or undefined (the message is V8's).
\<close>

definition destructure :: "jsval \<Rightarrow> js_error + jsval \<times> jsval \<times> jsval \<times> jsval \<times> jsval" where
  "destructure row =
     (if nullish row
      then Inl (TypeError (''Cannot destructure property '' @ [CHR 0x27] @ ''id'' @ [CHR 0x27] @ '' of ''
                  @ [CHR 0x27] @ ''row'' @ [CHR 0x27] @ '' as it is ''
                  @ (if row = JNull then ''null'' else ''undefined'') @ ''.''))
      else Inr (get_prop row ''id'', get_prop row ''wallet_address'', get_prop row ''amount'',
                get_prop row ''destination_tag'', get_prop row ''webhook_secret''))"

text \<open>Reading a property of the variable \<^verbatim>\<open>wallet\<close> or \<^verbatim>\<open>client\<close>: a TypeError while it is undefined.\<close>

definition global_object :: "(world \<Rightarrow> 'a option) \<Rightarrow> string \<Rightarrow> 'a prog" where
  "global_object var k =
     bind (read var) (\<lambda>v. case v of
        None \<Rightarrow> throw (cannot_read JUndefined k)
      | Some x \<Rightarrow> return x)"

definition payment_tx :: "env \<Rightarrow> string \<Rightarrow> string \<Rightarrow> jsval \<Rightarrow> jsval \<Rightarrow> jsval" where
  "payment_tx env account drops wallet_address destination_tag =
     JObj ([(''TransactionType'', JStr ''Payment''),
            (''Account'', JStr account),
            (''Amount'', JStr drops),
            (''Destination'', wallet_address)]
           @ (if \<not> nullish destination_tag
              then [(''DestinationTag'', JNum (js_Number env destination_tag))] else []))"

text \<open>The constants \<^verbatim>\<open>engine\<close> and \<^verbatim>\<open>txHash\<close> of \<^verbatim>\<open>processOne\<close>, from the result of the submission.\<close>

definition engine :: "jsval \<Rightarrow> jsval" where
  "engine result =
     js_or (opt_get (opt_get result ''result'') ''engine_result'') (opt_get result ''engine_result'')"

definition txHash :: "jsval \<Rightarrow> jsval" where
  "txHash result =
     js_or (opt_get (opt_get (opt_get result ''result'') ''tx_json'') ''hash'')
           (opt_get (opt_get result ''tx_json'') ''hash'')"

text \<open>The \<^verbatim>\<open>try\<close> block of \<^verbatim>\<open>processOne\<close>.\<close>

definition processOne_try :: "env \<Rightarrow> config \<Rightarrow> jsval \<Rightarrow> unit prog" where
  "processOne_try env cfg row =
     bind (lift (destructure row)) (\<lambda>(id, wallet_address, amount, destination_tag, webhook_secret).
     bind (postWebhook env cfg
             (JObj [(''request_id'', id), (''status'', JStr ''processing''),
                    (''webhook_secret'', webhook_secret)])) (\<lambda>_.
     bind (global_object wallet ''classicAddress'') (\<lambda>account.
     bind (call (\<lambda>h. of_sum (xrpToDrops env (js_String env amount)))
             (XrpToDrops (js_String env amount))) (\<lambda>drops.
     let tx = payment_tx env account drops wallet_address destination_tag in
     bind (global_object client ''autofill'') (\<lambda>c.
     bind (call (\<lambda>h. Client_autofill env h c tx) (Autofill c tx)) (\<lambda>prepared.
     bind (global_object wallet ''sign'') (\<lambda>w.
     bind (call (\<lambda>h. of_sum (wallet_sign env w prepared)) (Sign w prepared)) (\<lambda>signed.
     bind (global_object client ''submitAndWait'') (\<lambda>c.
     bind (lift (get_member signed ''tx_blob'')) (\<lambda>tx_blob.
     bind (call (\<lambda>h. Client_submitAndWait env h c tx_blob) (SubmitAndWait c tx_blob)) (\<lambda>result.
     if engine result \<noteq> JStr ''tesSUCCESS'' then
       throw (new_Error (''Engine result: '' @ js_String env (js_or (engine result) (JStr ''unknown''))))
     else
       bind (postWebhook env cfg
               (JObj [(''request_id'', id), (''status'', JStr ''completed''),
                      (''tx_id'', txHash result), (''webhook_secret'', webhook_secret)])) (\<lambda>_.
       console_log [JStr ''[PAYOUT] Success'', id, txHash result]))))))))))))"

text \<open>
  The \<^verbatim>\<open>catch (err)\<close> block of \<^verbatim>\<open>processOne\<close>; \<open>error_message\<close> is
  \<^verbatim>\<open>String(err.message || err).slice(0, 500)\<close>.
\<close>

definition error_message :: "js_error \<Rightarrow> string" where
  "error_message err =
     take 500 (if err_message err \<noteq> [] then err_message err else err_toString err)"

definition processOne_catch :: "env \<Rightarrow> config \<Rightarrow> jsval \<Rightarrow> js_error \<Rightarrow> unit prog" where
  "processOne_catch env cfg row err =
     bind (console_error [JStr ''[PAYOUT] Failed'', opt_get row ''id'', JStr (err_message err)]) (\<lambda>_.
     try_catch
       (bind (lift (get_member row ''id'')) (\<lambda>request_id.
        bind (lift (get_member row ''webhook_secret'')) (\<lambda>webhook_secret.
        bind (postWebhook env cfg
                (JObj [(''request_id'', request_id), (''status'', JStr ''failed''),
                       (''error_message'', JStr (error_message err)),
                       (''webhook_secret'', webhook_secret)])) (\<lambda>_.
        return ()))))
       (\<lambda>e. console_error [JStr ''[WEBHOOK] Error reporting failure:'', JStr (err_message e)]))"

definition processOne :: "env \<Rightarrow> config \<Rightarrow> jsval \<Rightarrow> unit prog" where
  "processOne env cfg row =
     bind (modify (\<lambda>s. s\<lparr>inFlight := inFlight s + 1\<rparr>)) (\<lambda>_.
     try_finally
       (try_catch (processOne_try env cfg row) (processOne_catch env cfg row))
       (modify (\<lambda>s. s\<lparr>inFlight := inFlight s - 1\<rparr>)))"

text \<open>The \<^verbatim>\<open>for\<close> loop of \<^verbatim>\<open>pollLoop\<close> over the rows left: \<^verbatim>\<open>processOne(row)\<close> is not awaited.\<close>

fun dispatch :: "env \<Rightarrow> config \<Rightarrow> jsval list \<Rightarrow> unit prog" where
  "dispatch env cfg [] = return ()"
| "dispatch env cfg (row # rows) =
     bind (read inFlight) (\<lambda>n.
     if js_ge n (StringToNumber env (MAX_CONCURRENT cfg)) then return ()
     else bind (no_await (processOne (unawaited env) cfg row)) (\<lambda>_. dispatch env cfg rows))"

text \<open>
  \<^verbatim>\<open>pollLoop\<close>. The first step is the condition \<^verbatim>\<open>!client || !client.isConnected()\<close>; the
  second gives \<open>False\<close> where the source returns from the handler of the reconnection.
\<close>

definition pollLoop :: "env \<Rightarrow> config \<Rightarrow> unit prog" where
  "pollLoop env cfg =
     bind (bind (read client) (\<lambda>c. case c of
              None \<Rightarrow> return True
            | Some u \<Rightarrow>
                bind (call (\<lambda>h. Normal (Client_isConnected env h u)) (IsConnected u)) (\<lambda>up.
                return (\<not> up)))) (\<lambda>down.
     bind (if down then
             try_catch (bind (connectClient env cfg) (\<lambda>_. return True))
               (\<lambda>e. bind (console_error [JStr ''[XRPL] reconnect failed:'', JStr (err_message e)]) (\<lambda>_.
                     return False))
           else return True) (\<lambda>go_on.
     if \<not> go_on then return ()
     else
       bind (read inFlight) (\<lambda>n.
       if js_ge n (StringToNumber env (MAX_CONCURRENT cfg)) then return ()
       else
         try_catch
           (bind (fetchQueued env cfg (Some (StringToNumber env (MAX_CONCURRENT cfg)))) (\<lambda>rows.
            bind (lift (iterate ''rows'' rows)) (dispatch env cfg)))
           (\<lambda>e. console_error [JStr ''[POLL] error:'', JStr (err_message e)]))))"

text \<open>
  The handler of \<^verbatim>\<open>POST /process\<close>; \<open>authorization\<close> is \<^verbatim>\<open>req.headers.authorization\<close>, a string
  or undefined. \<^verbatim>\<open>res.json\<close> answers with status 200 unless \<^verbatim>\<open>res.status\<close> has set another.
\<close>

definition post_process :: "config \<Rightarrow> jsval \<Rightarrow> unit prog" where
  "post_process cfg authorization =
     (if truthy (env_val (CONTROL_BEARER_TOKEN cfg))
         \<and> js_or authorization (JStr []) \<noteq> JStr (''Bearer '' @ template (CONTROL_BEARER_TOKEN cfg))
      then emit (Respond 401 (JObj [(''ok'', JBool False), (''error'', JStr ''Unauthorized'')]))
      else
        bind (emit (SetTimeout ''pollLoop'' 50)) (\<lambda>_.
        emit (Respond 200 (JObj [(''ok'', JBool True), (''started'', JBool True)]))))"

section \<open>Reading a run\<close>

text \<open>The calls made between two states.\<close>

definition new_events :: "world \<Rightarrow> world \<Rightarrow> event list" where
  "new_events s s' = drop (length (trace s)) (trace s')"

text \<open>The bodies of the POST requests among some calls: the webhook reports.\<close>

fun webhook_post :: "event \<Rightarrow> jsval option" where
  "webhook_post (Fetch url init r) =
     (if get_prop init ''method'' = JStr ''POST'' then Some (get_prop init ''body'') else None)"
| "webhook_post _ = None"

definition webhook_posts :: "event list \<Rightarrow> jsval list" where
  "webhook_posts evs = List.map_filter webhook_post evs"

text \<open>The calls that build, fill in, sign or submit a transaction.\<close>

fun ledger_call :: "event \<Rightarrow> bool" where
  "ledger_call (XrpToDrops a r) = True"
| "ledger_call (Autofill c tx r) = True"
| "ledger_call (Sign w tx r) = True"
| "ledger_call (SubmitAndWait c b r) = True"
| "ledger_call _ = False"

text \<open>The "processing" report and the "failed" report that \<^verbatim>\<open>processOne\<close> posts for a row.\<close>

definition processing_report :: "jsval \<Rightarrow> jsval" where
  "processing_report row =
     JObj [(''request_id'', get_prop row ''id''), (''status'', JStr ''processing''),
           (''webhook_secret'', get_prop row ''webhook_secret'')]"

definition failed_report :: "jsval \<Rightarrow> string \<Rightarrow> jsval" where
  "failed_report row msg =
     JObj [(''request_id'', get_prop row ''id''), (''status'', JStr ''failed''),
           (''error_message'', JStr msg), (''webhook_secret'', get_prop row ''webhook_secret'')]"

definition webhook_url :: "config \<Rightarrow> jsval" where
  "webhook_url cfg = env_val (SUPABASE_WEBHOOK_URL cfg)"

text \<open>How \<^verbatim>\<open>postWebhook\<close> ends, from the answer of its \<^verbatim>\<open>fetch\<close>.\<close>

definition webhook_result :: "response completion \<Rightarrow> jsval completion" where
  "webhook_result r =
     (case r of
        Normal res \<Rightarrow>
          if \<not> res_ok res then
            (case res_text res of
               Inl e \<Rightarrow> Throw e
             | Inr t \<Rightarrow> Throw (new_Error (''Webhook failed: '' @ decimal (res_status res) @ '' '' @ t)))
          else (case res_json res of Inl e \<Rightarrow> Normal (JObj [(''ok'', JBool True)]) | Inr v \<Rightarrow> Normal v)
      | Throw e \<Rightarrow> Throw e
      | Suspended \<Rightarrow> Suspended)"

text \<open>
  Two stretches of the \<^verbatim>\<open>try\<close> block of \<^verbatim>\<open>processOne\<close>, named for the proofs: from the
  transaction to the submission, and from the engine result to the end.
\<close>

definition submit_payment :: "env \<Rightarrow> jsval \<Rightarrow> jsval \<Rightarrow> jsval \<Rightarrow> jsval prog" where
  "submit_payment env amount wallet_address destination_tag =
     bind (global_object wallet ''classicAddress'') (\<lambda>account.
     bind (call (\<lambda>h. of_sum (xrpToDrops env (js_String env amount)))
             (XrpToDrops (js_String env amount))) (\<lambda>drops.
     let tx = payment_tx env account drops wallet_address destination_tag in
     bind (global_object client ''autofill'') (\<lambda>c.
     bind (call (\<lambda>h. Client_autofill env h c tx) (Autofill c tx)) (\<lambda>prepared.
     bind (global_object wallet ''sign'') (\<lambda>w.
     bind (call (\<lambda>h. of_sum (wallet_sign env w prepared)) (Sign w prepared)) (\<lambda>signed.
     bind (global_object client ''submitAndWait'') (\<lambda>c.
     bind (lift (get_member signed ''tx_blob'')) (\<lambda>tx_blob.
     call (\<lambda>h. Client_submitAndWait env h c tx_blob) (SubmitAndWait c tx_blob)))))))))"

definition report :: "env \<Rightarrow> config \<Rightarrow> jsval \<Rightarrow> jsval \<Rightarrow> jsval \<Rightarrow> unit prog" where
  "report env cfg request_id webhook_secret result =
    (if engine result \<noteq> JStr ''tesSUCCESS'' then
       throw (new_Error (''Engine result: '' @ js_String env (js_or (engine result) (JStr ''unknown''))))
     else
       bind (postWebhook env cfg
               (JObj [(''request_id'', request_id), (''status'', JStr ''completed''),
                      (''tx_id'', txHash result), (''webhook_secret'', webhook_secret)])) (\<lambda>_.
       console_log [JStr ''[PAYOUT] Success'', request_id, txHash result]))"

text \<open>Sequential execution: every awaited call is answered before the run goes on.\<close>

definition responsive :: "env \<Rightarrow> bool" where
  "responsive env \<longleftrightarrow>
     (\<forall>h c. Client_connect env h c \<noteq> Suspended) \<and>
     (\<forall>h c tx. Client_autofill env h c tx \<noteq> Suspended) \<and>
     (\<forall>h c b. Client_submitAndWait env h c b \<noteq> Suspended) \<and>
     (\<forall>h u i. fetch env h u i \<noteq> Suspended)"

text \<open>The endpoints tried among some calls, and the endpoints a connection was made to.\<close>

fun attempt_url :: "event \<Rightarrow> jsval option" where
  "attempt_url (NewClient url r) = Some url"
| "attempt_url _ = None"

definition attempted :: "event list \<Rightarrow> jsval list" where
  "attempted evs = List.map_filter attempt_url evs"

fun session_url :: "event \<Rightarrow> jsval option" where
  "session_url (Connect url (Normal x)) = Some url"
| "session_url _ = None"

definition sessions :: "event list \<Rightarrow> jsval list" where
  "sessions evs = List.map_filter session_url evs"

text \<open>The elements of \<^verbatim>\<open>WS_DEFAULTS\<close>.\<close>

definition endpoints :: "config \<Rightarrow> jsval list" where
  "endpoints cfg = (case WS_DEFAULTS cfg of JArr urls \<Rightarrow> urls | _ \<Rightarrow> [])"

text \<open>The calls that open a session.\<close>

fun connect_call :: "event \<Rightarrow> bool" where
  "connect_call (NewClient url r) = True"
| "connect_call (Connect url r) = True"
| "connect_call _ = False"

text \<open>The "processing" report of a row that was dispatched and not awaited.\<close>

definition pending_report :: "config \<Rightarrow> jsval \<Rightarrow> event" where
  "pending_report cfg row = Fetch (webhook_url cfg) (webhook_init (processing_report row)) Suspended"

text \<open>
  The condition \<^verbatim>\<open>!client || !client.isConnected()\<close> of \<^verbatim>\<open>pollLoop\<close>: whether a live session
  exists, and the state after asking.
\<close>

definition connection_check :: "env \<Rightarrow> world \<Rightarrow> bool \<times> world" where
  "connection_check env s =
     (case client s of
        None \<Rightarrow> (False, s)
      | Some u \<Rightarrow>
          (Client_isConnected env (trace s) u,
           s\<lparr>trace := trace s @ [IsConnected u (Normal (Client_isConnected env (trace s) u))]\<rparr>))"

text \<open>\<^verbatim>\<open>Number(MAX_CONCURRENT)\<close>, the cap.\<close>

definition cap :: "env \<Rightarrow> config \<Rightarrow> jsnum" where
  "cap env cfg = StringToNumber env (MAX_CONCURRENT cfg)"

text \<open>The stretch of \<^verbatim>\<open>pollLoop\<close> after the connection is ensured, named for the proofs.\<close>

definition poll_batch :: "env \<Rightarrow> config \<Rightarrow> unit prog" where
  "poll_batch env cfg =
     bind (read inFlight) (\<lambda>n.
     if js_ge n (StringToNumber env (MAX_CONCURRENT cfg)) then return ()
     else
       try_catch
         (bind (fetchQueued env cfg (Some (StringToNumber env (MAX_CONCURRENT cfg)))) (\<lambda>rows.
          bind (lift (iterate ''rows'' rows)) (dispatch env cfg)))
         (\<lambda>e. console_error [JStr ''[POLL] error:'', JStr (err_message e)]))"

text \<open>
  The reports among some calls: the last one, which is the final report of the attempt,
  and the calls made after it.
\<close>

definition is_report :: "event \<Rightarrow> bool" where
  "is_report ev \<longleftrightarrow> webhook_post ev \<noteq> None"

definition final_report :: "event list \<Rightarrow> event option" where
  "final_report evs = (if filter is_report evs = [] then None else Some (last (filter is_report evs)))"

definition after_final_report :: "event list \<Rightarrow> event list" where
  "after_final_report evs = rev (takeWhile (\<lambda>ev. \<not> is_report ev) (rev evs))"

text \<open>
  An endpoint that cannot be connected to, whatever happened before: no client can be made
  for it, or its \<^verbatim>\<open>connect\<close> throws. And an endpoint that always accepts the connection.
\<close>

definition refuses :: "env \<Rightarrow> jsval \<Rightarrow> bool" where
  "refuses env url \<longleftrightarrow>
     (\<forall>h. \<exists>e. Client_new env h url = Inl e) \<or> (\<forall>h. \<exists>e. Client_connect env h url = Throw e)"

definition accepts :: "env \<Rightarrow> jsval \<Rightarrow> bool" where
  "accepts env url \<longleftrightarrow> (\<forall>h. Client_new env h url = Inr () \<and> Client_connect env h url = Normal ())"

text \<open>A piece of program that never ends suspended.\<close>

definition settles :: "'a prog \<Rightarrow> bool" where
  "settles m \<longleftrightarrow> (\<forall>s. fst (m s) \<noteq> Suspended)"

section \<open>Example inputs\<close>

text \<open>
  What \<^verbatim>\<open>client.submitAndWait\<close> of the xrpl library resolves with once the ledger has
  validated the transaction: the response to the \<^verbatim>\<open>tx\<close> request for it, here for a payment
  of the hot wallet. The engine result of the transaction is \<^verbatim>\<open>result.meta.TransactionResult\<close>
  and its hash is \<^verbatim>\<open>result.hash\<close>. The response has no field \<^verbatim>\<open>engine_result\<close> (the response to
  \<^verbatim>\<open>submit\<close> has one; \<^verbatim>\<open>submitAndWait\<close> does not return that response) and no \<^verbatim>\<open>hash\<close> inside a
  \<^verbatim>\<open>tx_json\<close>. A transaction the ledger applied with a \<^verbatim>\<open>tec\<close> code is validated too, so
  \<^verbatim>\<open>submitAndWait\<close> resolves with its response in the same way.
\<close>

definition tx_response :: "string \<Rightarrow> string \<Rightarrow> jsval" where
  "tx_response code hash =
     JObj [(''id'', JNum (Fin 4)),
           (''result'',
            JObj [(''Account'', JStr ''rHOT''),
                  (''Amount'', JStr ''10000000''),
                  (''Destination'', JStr ''rDEST''),
                  (''TransactionType'', JStr ''Payment''),
                  (''hash'', JStr hash),
                  (''ledger_index'', JNum (Fin 100)),
                  (''meta'', JObj [(''TransactionIndex'', JNum (Fin 0)),
                                   (''TransactionResult'', JStr code)]),
                  (''validated'', JBool True)]),
           (''type'', JStr ''response'')]"

text \<open>The engine result and the hash of the transaction in such a response.\<close>

definition TransactionResult :: "jsval \<Rightarrow> jsval" where
  "TransactionResult response = get_prop (get_prop (get_prop response ''result'') ''meta'') ''TransactionResult''"

definition transaction_hash :: "jsval \<Rightarrow> jsval" where
  "transaction_hash response = get_prop (get_prop response ''result'') ''hash''"

text \<open>
  An environment where every call succeeds: the ledger validates the payment with the
  engine result \<^verbatim>\<open>tesSUCCESS\<close> and the hash \<^verbatim>\<open>ABC123\<close>, and the backend answers 200.
\<close>

definition ok_response :: response where
  "ok_response = \<lparr>res_status = 200, res_text = Inr ''{}'', res_json = Inr (JObj [])\<rparr>"

definition env0 :: env where
  "env0 =
     \<lparr>StringToNumber = (\<lambda>s. if s = ''2'' then Fin 2 else NaN),
      fraction_to_string = (\<lambda>r. ''NaN''),
      xrpToDrops = (\<lambda>s. if s = ''10'' then Inr ''10000000''
                          else Inl (XrplError ''ValidationError'' ''xrpToDrops: invalid value'')),
      wallet_sign = (\<lambda>w tx. Inr (JObj [(''tx_blob'', JStr ''BLOB''), (''hash'', JStr ''ABC123'')])),
      Client_new = (\<lambda>h url. Inr ()),
      Client_connect = (\<lambda>h url. Normal ()),
      Client_isConnected = (\<lambda>h url. True),
      Client_autofill = (\<lambda>h c tx. Normal tx),
      Client_submitAndWait = (\<lambda>h c blob. Normal (tx_response ''tesSUCCESS'' ''ABC123'')),
      fetch = (\<lambda>h url init. Normal ok_response)\<rparr>"

definition cfg0 :: config where
  "cfg0 =
     \<lparr>SUPABASE_URL = Some ''https://db.example'',
      SUPABASE_SERVICE_ROLE_KEY = Some ''KEY'',
      SUPABASE_WEBHOOK_URL = Some ''https://db.example/hook'',
      XRPL_SERVERS = Some ''wss://a.example, wss://b.example'',
      XRPL_SERVER = None,
      MAX_CONCURRENT_env = None,
      CONTROL_BEARER_TOKEN = Some ''tok''\<rparr>"

definition s0 :: world where
  "s0 = \<lparr>client = Some (JStr ''wss://a.example''), wallet = Some ''rHOT'', inFlight = 0, trace = []\<rparr>"

text \<open>The row of the scenarios of the specification.\<close>

definition row0 :: jsval where
  "row0 =
     JObj [(''id'', JStr ''r1''), (''wallet_address'', JStr ''rDEST''), (''amount'', JStr ''10''),
           (''webhook_secret'', JStr ''s1'')]"

text \<open>The same, with a ledger that applies the payment with the engine result \<^verbatim>\<open>tecUNFUNDED_PAYMENT\<close>.\<close>

definition env_rejecting :: env where
  "env_rejecting =
     env0\<lparr>Client_submitAndWait := \<lambda>h c blob. Normal (tx_response ''tecUNFUNDED_PAYMENT'' ''ABC123'')\<rparr>"

text \<open>A backend that answers 500 to every request.\<close>

definition failing_response :: response where
  "failing_response =
     \<lparr>res_status = 500, res_text = Inr ''boom'',
      res_json = Inl (SyntaxError ''Unexpected token b in JSON at position 0'')\<rparr>"

definition env_webhook_down :: env where
  "env_webhook_down = env0\<lparr>fetch := \<lambda>h url init. Normal failing_response\<rparr>"

text \<open>
  A ledger client whose \<^verbatim>\<open>autofill\<close> throws \<^verbatim>\<open>new NotConnectedError()\<close>, an error of the xrpl
  library with an empty message.
\<close>

definition env_silent_error :: env where
  "env_silent_error = env0\<lparr>Client_autofill := \<lambda>h c tx. Throw (XrplError ''NotConnectedError'' [])\<rparr>"

text \<open>A configuration with no variable set.\<close>

definition cfg_bare :: config where
  "cfg_bare =
     \<lparr>SUPABASE_URL = None, SUPABASE_SERVICE_ROLE_KEY = None, SUPABASE_WEBHOOK_URL = None,
      XRPL_SERVERS = None, XRPL_SERVER = None, MAX_CONCURRENT_env = None,
      CONTROL_BEARER_TOKEN = None\<rparr>"

text \<open>A network where no endpoint accepts the connection.\<close>

definition env_all_down :: env where
  "env_all_down =
     env0\<lparr>Client_connect := \<lambda>h url. Throw (XrplError ''NotConnectedError'' ''connection refused'')\<rparr>"

text \<open>A network where the first endpoint refuses the connection and the others accept it.\<close>

definition env_first_down :: env where
  "env_first_down =
     env0\<lparr>Client_connect := \<lambda>h url.
             if url = JStr ''wss://a.example''
             then Throw (XrplError ''NotConnectedError'' ''connection refused'') else Normal ()\<rparr>"

text \<open>A backend whose queue holds three rows.\<close>

definition queue_response :: response where
  "queue_response = \<lparr>res_status = 200, res_text = Inr ''[...]'', res_json = Inr (JArr [row0, row0, row0])\<rparr>"

definition env_queue :: env where
  "env_queue =
     env0\<lparr>fetch := \<lambda>h url init.
             if get_prop init ''method'' = JStr ''POST'' then Normal ok_response
             else Normal queue_response\<rparr>"

section \<open>Laws of the control flow\<close>

lemma err_message_simps [simp]:
  "err_message (new_Error msg) = msg"
  "err_message (TypeError msg) = msg"
  "err_message (SyntaxError msg) = msg"
  "err_message (XrplError name msg) = msg"
  by (simp_all add: new_Error_def TypeError_def SyntaxError_def XrplError_def)

lemma err_toString_simps [simp]:
  "err_toString (new_Error msg) = Error_toString ''Error'' msg"
  "err_toString (TypeError msg) = Error_toString ''TypeError'' msg"
  "err_toString (XrplError name msg) = ''['' @ name @ ''('' @ msg @ '')]''"
  by (simp_all add: new_Error_def TypeError_def XrplError_def)

lemma bind_assoc: "bind (bind m f) g = bind m (\<lambda>x. bind (f x) g)"
  by (rule ext) (simp add: bind_def split: prod.split completion.split)

lemma bind_lift: "bind (lift r) f s = (case r of Inl e \<Rightarrow> (Throw e, s) | Inr x \<Rightarrow> f x s)"
  by (simp add: bind_def lift_def of_sum_def split: sum.split)

lemma bind_call:
  "bind (call a ev) f s =
     (case a (trace s) of
        Normal x \<Rightarrow> f x (s\<lparr>trace := trace s @ [ev (Normal x)]\<rparr>)
      | Throw e \<Rightarrow> (Throw e, s\<lparr>trace := trace s @ [ev (Throw e)]\<rparr>)
      | Suspended \<Rightarrow> (Suspended, s\<lparr>trace := trace s @ [ev Suspended]\<rparr>))"
  by (simp add: bind_def call_def Let_def split: completion.split)

lemma bind_global:
  "bind (global_object var k) f s =
     (case var s of None \<Rightarrow> (Throw (cannot_read JUndefined k), s) | Some x \<Rightarrow> f x s)"
  by (simp add: bind_def global_object_def read_def return_def throw_def split: option.split)

lemma bind_emit: "bind (emit e) f s = f () (s\<lparr>trace := trace s @ [e]\<rparr>)"
  by (simp add: bind_def emit_def)

lemma call_eq: "call a ev s = (a (trace s), s\<lparr>trace := trace s @ [ev (a (trace s))]\<rparr>)"
  by (simp add: call_def Let_def)

lemma new_events_append [simp]: "new_events s (s\<lparr>trace := trace s @ evs\<rparr>) = evs"
  by (simp add: new_events_def)

lemma new_events_same [simp]: "new_events s s = []"
  by (simp add: new_events_def)

lemma postWebhook_eq:
  "postWebhook env cfg body s =
     (webhook_result (fetch env (trace s) (webhook_url cfg) (webhook_init body)),
      s\<lparr>trace := trace s @ [Fetch (webhook_url cfg) (webhook_init body)
          (fetch env (trace s) (webhook_url cfg) (webhook_init body))]\<rparr>)"
  by (simp add: postWebhook_def Let_def bind_call bind_lift webhook_result_def try_catch_def lift_def
        of_sum_def throw_def return_def webhook_url_def split: completion.split sum.split)

lemma processOne_try_split:
  "processOne_try env cfg row =
     bind (lift (destructure row)) (\<lambda>(id, wallet_address, amount, destination_tag, webhook_secret).
     bind (postWebhook env cfg
             (JObj [(''request_id'', id), (''status'', JStr ''processing''),
                    (''webhook_secret'', webhook_secret)])) (\<lambda>_.
     bind (submit_payment env amount wallet_address destination_tag)
       (report env cfg id webhook_secret)))"
  unfolding processOne_try_def submit_payment_def report_def Let_def bind_assoc
  by (rule refl)

lemma submit_payment_cases:
  "(let r = submit_payment env am wa dt s; evs = new_events s (snd r) in
     snd r = s\<lparr>trace := trace s @ evs\<rparr> \<and> webhook_posts evs = [] \<and>
     (case fst r of
        Normal result \<Rightarrow>
          (\<exists>account drops cl prepared signed.
             wallet s = Some account \<and> client s = Some cl \<and>
             xrpToDrops env (js_String env am) = Inr drops \<and>
             evs = [XrpToDrops (js_String env am) (Normal drops),
                    Autofill cl (payment_tx env account drops wa dt) (Normal prepared),
                    Sign account prepared (Normal signed),
                    SubmitAndWait cl (get_prop signed ''tx_blob'') (Normal result)])
      | _ \<Rightarrow> (\<forall>cl b r. SubmitAndWait cl b (Normal r) \<notin> set evs)))"
  by (auto simp add: submit_payment_def Let_def bind_call bind_lift bind_global call_eq of_sum_def get_member_def
         webhook_posts_def List.map_filter_simps
        split: completion.split sum.split option.split)

lemma report_eq:
  "report env cfg rid ws result s =
     (if engine result \<noteq> JStr ''tesSUCCESS''
      then (Throw (new_Error (''Engine result: '' @ js_String env (js_or (engine result) (JStr ''unknown'')))), s)
      else
        (let body = JObj [(''request_id'', rid), (''status'', JStr ''completed''),
                          (''tx_id'', txHash result), (''webhook_secret'', ws)];
             r = fetch env (trace s) (webhook_url cfg) (webhook_init body);
             post = Fetch (webhook_url cfg) (webhook_init body) r
         in case webhook_result r of
              Normal v \<Rightarrow> (Normal (), s\<lparr>trace := trace s @ [post, ConsoleLog [JStr ''[PAYOUT] Success'', rid, txHash result]]\<rparr>)
            | Throw e \<Rightarrow> (Throw e, s\<lparr>trace := trace s @ [post]\<rparr>)
            | Suspended \<Rightarrow> (Suspended, s\<lparr>trace := trace s @ [post]\<rparr>)))"
  by (simp add: report_def postWebhook_eq bind_def throw_def console_log_def emit_def Let_def
        split: completion.split)

lemma processOne_catch_nullish:
  "nullish row \<Longrightarrow>
   processOne_catch env cfg row err s =
     (Normal (), s\<lparr>trace := trace s @
        [ConsoleError [JStr ''[PAYOUT] Failed'', opt_get row ''id'', JStr (err_message err)],
         ConsoleError [JStr ''[WEBHOOK] Error reporting failure:'', JStr (err_message (cannot_read row ''id''))]]\<rparr>)"
  by (simp add: processOne_catch_def console_error_def bind_emit bind_lift try_catch_def
        get_member_def emit_def)

lemma processOne_catch_eq:
  "\<not> nullish row \<Longrightarrow>
   processOne_catch env cfg row err s =
     (let h = trace s @ [ConsoleError [JStr ''[PAYOUT] Failed'', opt_get row ''id'', JStr (err_message err)]];
          body = failed_report row (error_message err);
          r = fetch env h (webhook_url cfg) (webhook_init body);
          post = Fetch (webhook_url cfg) (webhook_init body) r
      in case webhook_result r of
           Normal v \<Rightarrow> (Normal (), s\<lparr>trace := h @ [post]\<rparr>)
         | Throw e \<Rightarrow> (Normal (), s\<lparr>trace := h @
               [post, ConsoleError [JStr ''[WEBHOOK] Error reporting failure:'', JStr (err_message e)]]\<rparr>)
         | Suspended \<Rightarrow> (Suspended, s\<lparr>trace := h @ [post]\<rparr>))"
  by (simp add: processOne_catch_def postWebhook_eq console_error_def try_catch_def lift_def of_sum_def
        get_member_def bind_def return_def emit_def Let_def failed_report_def
        split: completion.split)

lemma processOne_eq:
  "processOne env cfg row s =
     (case processOne_try env cfg row (s\<lparr>inFlight := inFlight s + 1\<rparr>) of
        (Normal x, s2) \<Rightarrow> (Normal (), s2\<lparr>inFlight := inFlight s2 - 1\<rparr>)
      | (Suspended, s2) \<Rightarrow> (Suspended, s2)
      | (Throw e, s2) \<Rightarrow>
          (case processOne_catch env cfg row e s2 of
             (Suspended, s3) \<Rightarrow> (Suspended, s3)
           | (c, s3) \<Rightarrow> (c, s3\<lparr>inFlight := inFlight s3 - 1\<rparr>)))"
  by (simp add: processOne_def bind_def modify_def try_finally_def try_catch_def
        split: prod.split completion.split)


lemma bind_postWebhook:
  "bind (postWebhook env cfg body) f s =
     (case webhook_result (fetch env (trace s) (webhook_url cfg) (webhook_init body)) of
        Normal v \<Rightarrow> f v (s\<lparr>trace := trace s @ [Fetch (webhook_url cfg) (webhook_init body)
                          (fetch env (trace s) (webhook_url cfg) (webhook_init body))]\<rparr>)
      | Throw e \<Rightarrow> (Throw e, s\<lparr>trace := trace s @ [Fetch (webhook_url cfg) (webhook_init body)
                          (fetch env (trace s) (webhook_url cfg) (webhook_init body))]\<rparr>)
      | Suspended \<Rightarrow> (Suspended, s\<lparr>trace := trace s @ [Fetch (webhook_url cfg) (webhook_init body)
                          (fetch env (trace s) (webhook_url cfg) (webhook_init body))]\<rparr>))"
  by (simp add: bind_def postWebhook_eq split: completion.split)

lemma processOne_try_nullish:
  "nullish row \<Longrightarrow> \<exists>e. processOne_try env cfg row s = (Throw e, s)"
  by (simp add: processOne_try_split bind_lift destructure_def)

lemma processOne_try_start:
  "\<not> nullish row \<Longrightarrow>
   processOne_try env cfg row s =
     (case webhook_result (fetch env (trace s) (webhook_url cfg) (webhook_init (processing_report row))) of
        Normal v \<Rightarrow>
          bind (submit_payment env (get_prop row ''amount'') (get_prop row ''wallet_address'')
                  (get_prop row ''destination_tag''))
            (report env cfg (get_prop row ''id'') (get_prop row ''webhook_secret''))
            (s\<lparr>trace := trace s @ [Fetch (webhook_url cfg) (webhook_init (processing_report row))
                 (fetch env (trace s) (webhook_url cfg) (webhook_init (processing_report row)))]\<rparr>)
      | Throw e \<Rightarrow> (Throw e, s\<lparr>trace := trace s @ [Fetch (webhook_url cfg) (webhook_init (processing_report row))
                 (fetch env (trace s) (webhook_url cfg) (webhook_init (processing_report row)))]\<rparr>)
      | Suspended \<Rightarrow> (Suspended, s\<lparr>trace := trace s @ [Fetch (webhook_url cfg) (webhook_init (processing_report row))
                 (fetch env (trace s) (webhook_url cfg) (webhook_init (processing_report row)))]\<rparr>))"
  unfolding processing_report_def
  by (simp add: processOne_try_split bind_lift destructure_def bind_postWebhook)

lemma report_frame:
  "\<exists>evs. snd (report env cfg rid ws result s) = s\<lparr>trace := trace s @ evs\<rparr> \<and>
         (\<forall>cl b res. SubmitAndWait cl b (Normal res) \<notin> set evs)"
proof (cases "engine result \<noteq> JStr ''tesSUCCESS''")
  case True
  then have "snd (report env cfg rid ws result s) = s\<lparr>trace := trace s @ []\<rparr>"
    by (simp add: report_eq Let_def)
  then show ?thesis by (intro exI[of _ "[]"]) simp
next
  case False
  let ?body = "JObj [(''request_id'', rid), (''status'', JStr ''completed''),
                     (''tx_id'', txHash result), (''webhook_secret'', ws)]"
  let ?r = "fetch env (trace s) (webhook_url cfg) (webhook_init ?body)"
  let ?post = "Fetch (webhook_url cfg) (webhook_init ?body) ?r"
  show ?thesis
  proof (cases "webhook_result ?r")
    case (Normal v)
    with False have "snd (report env cfg rid ws result s) =
        s\<lparr>trace := trace s @ [?post, ConsoleLog [JStr ''[PAYOUT] Success'', rid, txHash result]]\<rparr>"
      by (simp add: report_eq Let_def)
    then show ?thesis
      by (intro exI[of _ "[?post, ConsoleLog [JStr ''[PAYOUT] Success'', rid, txHash result]]"]) simp
  next
    case (Throw e)
    with False have "snd (report env cfg rid ws result s) = s\<lparr>trace := trace s @ [?post]\<rparr>"
      by (simp add: report_eq Let_def)
    then show ?thesis by (intro exI[of _ "[?post]"]) simp
  next
    case Suspended
    with False have "snd (report env cfg rid ws result s) = s\<lparr>trace := trace s @ [?post]\<rparr>"
      by (simp add: report_eq Let_def)
    then show ?thesis by (intro exI[of _ "[?post]"]) simp
  qed
qed


lemma processOne_try_cases:
  obtains (quiet) evs where
      "snd (processOne_try env cfg row s) = s\<lparr>trace := trace s @ evs\<rparr>"
      "\<forall>cl b res. SubmitAndWait cl b (Normal res) \<notin> set evs"
      "fst (processOne_try env cfg row s) \<noteq> Normal ()"
  | (submitted) r1 account drops cl prepared signed result where
      "\<not> nullish row" "wallet s = Some account" "client s = Some cl"
      "xrpToDrops env (js_String env (get_prop row ''amount'')) = Inr drops"
      "processOne_try env cfg row s =
         report env cfg (get_prop row ''id'') (get_prop row ''webhook_secret'') result
           (s\<lparr>trace := trace s @
              [Fetch (webhook_url cfg) (webhook_init (processing_report row)) r1,
               XrpToDrops (js_String env (get_prop row ''amount'')) (Normal drops),
               Autofill cl (payment_tx env account drops (get_prop row ''wallet_address'')
                              (get_prop row ''destination_tag'')) (Normal prepared),
               Sign account prepared (Normal signed),
               SubmitAndWait cl (get_prop signed ''tx_blob'') (Normal result)]\<rparr>)"
proof (cases "nullish row")
  case True
  then obtain e where "processOne_try env cfg row s = (Throw e, s)"
    using processOne_try_nullish by blast
  then show ?thesis by (intro quiet[of "[]"]) simp_all
next
  case False
  let ?r1 = "fetch env (trace s) (webhook_url cfg) (webhook_init (processing_report row))"
  let ?post = "Fetch (webhook_url cfg) (webhook_init (processing_report row)) ?r1"
  let ?s1 = "s\<lparr>trace := trace s @ [?post]\<rparr>"
  let ?sp = "submit_payment env (get_prop row ''amount'') (get_prop row ''wallet_address'')
               (get_prop row ''destination_tag'') ?s1"
  show ?thesis
  proof (cases "webhook_result ?r1")
    case (Throw e)
    with False have "processOne_try env cfg row s = (Throw e, ?s1)"
      by (simp add: processOne_try_start)
    then show ?thesis by (intro quiet[of "[?post]"]) simp_all
  next
    case Suspended
    with False have "processOne_try env cfg row s = (Suspended, ?s1)"
      by (simp add: processOne_try_start)
    then show ?thesis by (intro quiet[of "[?post]"]) simp_all
  next
    case (Normal v)
    with False have try_eq: "processOne_try env cfg row s =
        bind (submit_payment env (get_prop row ''amount'') (get_prop row ''wallet_address'')
                (get_prop row ''destination_tag''))
          (report env cfg (get_prop row ''id'') (get_prop row ''webhook_secret'')) ?s1"
      by (simp add: processOne_try_start)
    have frame: "snd ?sp = ?s1\<lparr>trace := trace ?s1 @ new_events ?s1 (snd ?sp)\<rparr>"
      using submit_payment_cases[of env "get_prop row ''amount''" "get_prop row ''wallet_address''"
          "get_prop row ''destination_tag''" ?s1]
      by (simp add: Let_def)
    show ?thesis
    proof (cases "fst ?sp")
      case (Normal result)
      then obtain account drops cl prepared signed where
        w: "wallet s = Some account" and c: "client s = Some cl" and
        d: "xrpToDrops env (js_String env (get_prop row ''amount'')) = Inr drops" and
        evs: "new_events ?s1 (snd ?sp) =
               [XrpToDrops (js_String env (get_prop row ''amount'')) (Normal drops),
                Autofill cl (payment_tx env account drops (get_prop row ''wallet_address'')
                               (get_prop row ''destination_tag'')) (Normal prepared),
                Sign account prepared (Normal signed),
                SubmitAndWait cl (get_prop signed ''tx_blob'') (Normal result)]"
        using submit_payment_cases[of env "get_prop row ''amount''" "get_prop row ''wallet_address''"
            "get_prop row ''destination_tag''" ?s1]
        by (auto simp add: Let_def)
      from frame evs Normal have "?sp = (Normal result, s\<lparr>trace := trace s @
              [?post,
               XrpToDrops (js_String env (get_prop row ''amount'')) (Normal drops),
               Autofill cl (payment_tx env account drops (get_prop row ''wallet_address'')
                              (get_prop row ''destination_tag'')) (Normal prepared),
               Sign account prepared (Normal signed),
               SubmitAndWait cl (get_prop signed ''tx_blob'') (Normal result)]\<rparr>)"
        by (cases ?sp) simp
      with try_eq have "processOne_try env cfg row s =
         report env cfg (get_prop row ''id'') (get_prop row ''webhook_secret'') result
           (s\<lparr>trace := trace s @
              [?post,
               XrpToDrops (js_String env (get_prop row ''amount'')) (Normal drops),
               Autofill cl (payment_tx env account drops (get_prop row ''wallet_address'')
                              (get_prop row ''destination_tag'')) (Normal prepared),
               Sign account prepared (Normal signed),
               SubmitAndWait cl (get_prop signed ''tx_blob'') (Normal result)]\<rparr>)"
        by (simp add: bind_def)
      with False w c d show ?thesis by (rule submitted)
    next
      case (Throw e)
      then have no: "\<forall>cl b res. SubmitAndWait cl b (Normal res) \<notin> set (new_events ?s1 (snd ?sp))"
        using submit_payment_cases[of env "get_prop row ''amount''" "get_prop row ''wallet_address''"
            "get_prop row ''destination_tag''" ?s1]
        by (simp add: Let_def)
      from Throw try_eq have "processOne_try env cfg row s = (Throw e, snd ?sp)"
        by (cases ?sp) (simp add: bind_def)
      with frame have "snd (processOne_try env cfg row s) = s\<lparr>trace := trace s @ (?post # new_events ?s1 (snd ?sp))\<rparr>"
        and "fst (processOne_try env cfg row s) \<noteq> Normal ()"
        by simp_all
      with no show ?thesis by (intro quiet[of "?post # new_events ?s1 (snd ?sp)"]) simp_all
    next
      case Suspended
      then have no: "\<forall>cl b res. SubmitAndWait cl b (Normal res) \<notin> set (new_events ?s1 (snd ?sp))"
        using submit_payment_cases[of env "get_prop row ''amount''" "get_prop row ''wallet_address''"
            "get_prop row ''destination_tag''" ?s1]
        by (simp add: Let_def)
      from Suspended try_eq have "processOne_try env cfg row s = (Suspended, snd ?sp)"
        by (cases ?sp) (simp add: bind_def)
      with frame have "snd (processOne_try env cfg row s) = s\<lparr>trace := trace s @ (?post # new_events ?s1 (snd ?sp))\<rparr>"
        and "fst (processOne_try env cfg row s) \<noteq> Normal ()"
        by simp_all
      with no show ?thesis by (intro quiet[of "?post # new_events ?s1 (snd ?sp)"]) simp_all
    qed
  qed
qed

lemma settles_return: "settles (return x)" by (simp add: settles_def return_def)
lemma settles_throw: "settles (throw e)" by (simp add: settles_def throw_def)
lemma settles_lift: "settles (lift r)" by (simp add: settles_def lift_def of_sum_def split: sum.split)
lemma settles_read: "settles (read f)" by (simp add: settles_def read_def)
lemma settles_modify: "settles (modify f)" by (simp add: settles_def modify_def)
lemma settles_emit: "settles (emit e)" by (simp add: settles_def emit_def)
lemma settles_console_log: "settles (console_log args)" by (simp add: console_log_def settles_emit)
lemma settles_console_error: "settles (console_error args)" by (simp add: console_error_def settles_emit)

lemma settles_call: "(\<And>h. a h \<noteq> Suspended) \<Longrightarrow> settles (call a ev)"
  by (simp add: settles_def call_def Let_def)

lemma settles_bind: "settles m \<Longrightarrow> (\<And>x. settles (f x)) \<Longrightarrow> settles (bind m f)"
  by (auto simp add: settles_def bind_def split: prod.split completion.split) (metis fst_conv)+

lemma settles_try_catch: "settles m \<Longrightarrow> (\<And>e. settles (h e)) \<Longrightarrow> settles (try_catch m h)"
  by (auto simp add: settles_def try_catch_def split: prod.split completion.split) (metis fst_conv)+

lemma settles_try_finally: "settles m \<Longrightarrow> settles fin \<Longrightarrow> settles (try_finally m fin)"
  by (auto simp add: settles_def try_finally_def split: prod.split completion.split) (metis fst_conv)+

lemma settles_if: "settles a \<Longrightarrow> settles b \<Longrightarrow> settles (if c then a else b)"
  by simp

lemma settles_case_prod: "(\<And>a b. settles (f a b)) \<Longrightarrow> settles (case_prod f p)"
  by (cases p) simp

lemma settles_global: "settles (global_object var k)"
  unfolding global_object_def
  by (intro settles_bind settles_read) (simp add: settles_throw settles_return split: option.split)

lemma of_sum_settled: "of_sum r \<noteq> Suspended"
  by (simp add: of_sum_def split: sum.split)

lemma settles_postWebhook: "responsive env \<Longrightarrow> settles (postWebhook env cfg body)"
  unfolding postWebhook_def Let_def
  by (intro settles_bind settles_call settles_if settles_lift settles_throw settles_try_catch settles_return)
     (simp add: responsive_def)

lemma settles_processOne: "responsive env \<Longrightarrow> settles (processOne env cfg row)"
  unfolding processOne_def processOne_try_def processOne_catch_def Let_def
  by (intro settles_bind settles_call settles_if settles_lift settles_throw settles_try_catch settles_return
        settles_try_finally settles_modify settles_case_prod settles_global settles_postWebhook
        settles_console_log settles_console_error of_sum_settled)
     (simp_all add: responsive_def)


lemma webhook_post_init [simp]: "webhook_post (Fetch u (webhook_init body) r) = Some body"
  by (simp add: webhook_init_def)

lemma webhook_posts_simps [simp]:
  "webhook_posts [] = []"
  "webhook_posts (Fetch u (webhook_init body) r # evs) = body # webhook_posts evs"
  "webhook_posts (ConsoleLog args # evs) = webhook_posts evs"
  "webhook_posts (ConsoleError args # evs) = webhook_posts evs"
  "webhook_posts (XrpToDrops a rs # evs) = webhook_posts evs"
  "webhook_posts (Autofill c tx rj # evs) = webhook_posts evs"
  "webhook_posts (Sign w tx rj # evs) = webhook_posts evs"
  "webhook_posts (SubmitAndWait c b rj # evs) = webhook_posts evs"
  by (simp_all add: webhook_posts_def List.map_filter_simps webhook_init_def)

lemma processOne_try_frame:
  "\<exists>evs. snd (processOne_try env cfg row s) = s\<lparr>trace := trace s @ evs\<rparr>"
proof (cases rule: processOne_try_cases[of env cfg row s])
  case (quiet evs)
  then show ?thesis by blast
next
  case (submitted r1 account drops cl prepared signed result)
  let ?evs = "[Fetch (webhook_url cfg) (webhook_init (processing_report row)) r1,
               XrpToDrops (js_String env (get_prop row ''amount'')) (Normal drops),
               Autofill cl (payment_tx env account drops (get_prop row ''wallet_address'')
                              (get_prop row ''destination_tag'')) (Normal prepared),
               Sign account prepared (Normal signed),
               SubmitAndWait cl (get_prop signed ''tx_blob'') (Normal result)]"
  obtain evs where "snd (report env cfg (get_prop row ''id'') (get_prop row ''webhook_secret'') result
                      (s\<lparr>trace := trace s @ ?evs\<rparr>))
                    = (s\<lparr>trace := trace s @ ?evs\<rparr>)\<lparr>trace := trace (s\<lparr>trace := trace s @ ?evs\<rparr>) @ evs\<rparr>"
    using report_frame by blast
  with submitted(5) have "snd (processOne_try env cfg row s) = s\<lparr>trace := trace s @ (?evs @ evs)\<rparr>"
    by simp
  then show ?thesis by blast
qed

lemma processOne_catch_cases:
  obtains evs where
    "snd (processOne_catch env cfg row err s) = s\<lparr>trace := trace s @ evs\<rparr>"
    "fst (processOne_catch env cfg row err s) = Normal () \<or> fst (processOne_catch env cfg row err s) = Suspended"
    "filter ledger_call evs = []"
    "webhook_posts evs = (if nullish row then [] else [failed_report row (error_message err)])"
proof (cases "nullish row")
  case True
  then show ?thesis
    by (intro that[of "[ConsoleError [JStr ''[PAYOUT] Failed'', opt_get row ''id'', JStr (err_message err)],
         ConsoleError [JStr ''[WEBHOOK] Error reporting failure:'', JStr (err_message (cannot_read row ''id''))]]"])
       (simp_all add: processOne_catch_nullish)
next
  case False
  let ?log = "ConsoleError [JStr ''[PAYOUT] Failed'', opt_get row ''id'', JStr (err_message err)]"
  let ?r = "fetch env (trace s @ [?log]) (webhook_url cfg) (webhook_init (failed_report row (error_message err)))"
  let ?post = "Fetch (webhook_url cfg) (webhook_init (failed_report row (error_message err))) ?r"
  show ?thesis
  proof (cases "webhook_result ?r")
    case (Normal v)
    with False show ?thesis
      by (intro that[of "[?log, ?post]"]) (simp_all add: processOne_catch_eq Let_def)
  next
    case (Throw e)
    with False show ?thesis
      by (intro that[of "[?log, ?post,
            ConsoleError [JStr ''[WEBHOOK] Error reporting failure:'', JStr (err_message e)]]"])
         (simp_all add: processOne_catch_eq Let_def)
  next
    case Suspended
    with False show ?thesis
      by (intro that[of "[?log, ?post]"]) (simp_all add: processOne_catch_eq Let_def)
  qed
qed

lemma processOne_outcome:
  obtains (finished) evs where "processOne env cfg row s = (Normal (), s\<lparr>trace := trace s @ evs\<rparr>)"
  | (pending) evs where
      "processOne env cfg row s = (Suspended, s\<lparr>inFlight := inFlight s + 1, trace := trace s @ evs\<rparr>)"
proof -
  let ?s1 = "s\<lparr>inFlight := inFlight s + 1\<rparr>"
  obtain evs1 where f1: "snd (processOne_try env cfg row ?s1) = ?s1\<lparr>trace := trace ?s1 @ evs1\<rparr>"
    using processOne_try_frame by blast
  show ?thesis
  proof (cases "fst (processOne_try env cfg row ?s1)")
    case (Normal x)
    with f1 have "processOne env cfg row s = (Normal (), s\<lparr>trace := trace s @ evs1\<rparr>)"
      by (cases "processOne_try env cfg row ?s1") (simp add: processOne_eq)
    then show ?thesis by (rule finished)
  next
    case Suspended
    with f1 have "processOne env cfg row s = (Suspended, s\<lparr>inFlight := inFlight s + 1, trace := trace s @ evs1\<rparr>)"
      by (cases "processOne_try env cfg row ?s1") (simp add: processOne_eq)
    then show ?thesis by (rule pending)
  next
    case (Throw e)
    let ?s2 = "?s1\<lparr>trace := trace ?s1 @ evs1\<rparr>"
    from Throw f1 have t: "processOne_try env cfg row ?s1 = (Throw e, ?s2)"
      by (cases "processOne_try env cfg row ?s1") simp
    obtain evs2 where f2: "snd (processOne_catch env cfg row e ?s2) = ?s2\<lparr>trace := trace ?s2 @ evs2\<rparr>"
      and c2: "fst (processOne_catch env cfg row e ?s2) = Normal () \<or> fst (processOne_catch env cfg row e ?s2) = Suspended"
      by (rule processOne_catch_cases[of env cfg row e ?s2])
    from c2 show ?thesis
    proof
      assume "fst (processOne_catch env cfg row e ?s2) = Normal ()"
      with f2 t have "processOne env cfg row s = (Normal (), s\<lparr>trace := trace s @ (evs1 @ evs2)\<rparr>)"
        by (cases "processOne_catch env cfg row e ?s2") (simp add: processOne_eq)
      then show ?thesis by (rule finished)
    next
      assume "fst (processOne_catch env cfg row e ?s2) = Suspended"
      with f2 t have "processOne env cfg row s =
          (Suspended, s\<lparr>inFlight := inFlight s + 1, trace := trace s @ (evs1 @ evs2)\<rparr>)"
        by (cases "processOne_catch env cfg row e ?s2") (simp add: processOne_eq)
      then show ?thesis by (rule pending)
    qed
  qed
qed

lemma processOne_unawaited:
  "\<not> nullish row \<Longrightarrow>
   processOne (unawaited env) cfg row s =
     (Suspended, s\<lparr>inFlight := inFlight s + 1,
                    trace := trace s @ [Fetch (webhook_url cfg) (webhook_init (processing_report row)) Suspended]\<rparr>)"
  by (simp add: processOne_eq processOne_try_start unawaited_def webhook_result_def)

lemma processOne_nullish:
  "nullish row \<Longrightarrow>
   processOne env cfg row s =
     (Normal (), s\<lparr>trace := trace s @
        [ConsoleError [JStr ''[PAYOUT] Failed'', JUndefined, JStr (err_message (TypeError
           (''Cannot destructure property '' @ [CHR 0x27] @ ''id'' @ [CHR 0x27] @ '' of ''
                  @ [CHR 0x27] @ ''row'' @ [CHR 0x27] @ '' as it is ''
                  @ (if row = JNull then ''null'' else ''undefined'') @ ''.'')))],
         ConsoleError [JStr ''[WEBHOOK] Error reporting failure:'', JStr (err_message (cannot_read row ''id''))]]\<rparr>)"
  by (simp add: processOne_eq processOne_try_split bind_lift destructure_def processOne_catch_nullish opt_get_def)

section \<open>The in-flight counter\<close>


lemma responsive_env0: "responsive env0"
  by (simp add: responsive_def env0_def)

lemma row0_not_nullish: "\<not> nullish row0"
  by (simp add: row0_def)


lemma processOne_events:
  assumes "processOne_try env cfg row (s\<lparr>inFlight := inFlight s + 1\<rparr>) =
             (c, s\<lparr>inFlight := inFlight s + 1, trace := trace s @ evs1\<rparr>)"
  shows "new_events s (snd (processOne env cfg row s)) =
           evs1 @ (case c of
                     Throw e \<Rightarrow>
                       new_events (s\<lparr>inFlight := inFlight s + 1, trace := trace s @ evs1\<rparr>)
                         (snd (processOne_catch env cfg row e
                                 (s\<lparr>inFlight := inFlight s + 1, trace := trace s @ evs1\<rparr>)))
                   | _ \<Rightarrow> [])"
proof (cases c)
  case (Normal x)
  with assms show ?thesis by (simp add: processOne_eq new_events_def)
next
  case Suspended
  with assms show ?thesis by (simp add: processOne_eq new_events_def)
next
  case (Throw e)
  let ?s2 = "s\<lparr>inFlight := inFlight s + 1, trace := trace s @ evs1\<rparr>"
  obtain evs2 where f2: "snd (processOne_catch env cfg row e ?s2) = ?s2\<lparr>trace := trace ?s2 @ evs2\<rparr>"
    by (rule processOne_catch_cases[of env cfg row e ?s2])
  with Throw assms show ?thesis
    by (cases "processOne_catch env cfg row e ?s2")
       (simp add: processOne_eq new_events_def split: completion.split)
qed

section \<open>The reports of one payout\<close>

text \<open>
  C3. If the "processing" report fails (\<^verbatim>\<open>postWebhook\<close> throws), \<^verbatim>\<open>processOne\<close> makes no call
  that builds, fills in, signs or submits a transaction; the attempt ends with the
  best-effort "failed" report carrying the error of the "processing" report.
\<close>

theorem processing_failure_aborts:
  assumes "postWebhook env cfg (processing_report row) (s\<lparr>inFlight := inFlight s + 1\<rparr>) = (Throw e, s1)"
  shows "filter ledger_call (new_events s (snd (processOne env cfg row s))) = []
       \<and> (\<not> nullish row \<longrightarrow>
            webhook_posts (new_events s (snd (processOne env cfg row s))) =
              [processing_report row, failed_report row (error_message e)])"
proof (cases "nullish row")
  case True
  then show ?thesis by (simp add: processOne_nullish)
next
  case False
  let ?s1 = "s\<lparr>inFlight := inFlight s + 1\<rparr>"
  let ?r1 = "fetch env (trace s) (webhook_url cfg) (webhook_init (processing_report row))"
  let ?post = "Fetch (webhook_url cfg) (webhook_init (processing_report row)) ?r1"
  let ?s2 = "s\<lparr>inFlight := inFlight s + 1, trace := trace s @ [?post]\<rparr>"
  from assms have r1: "webhook_result ?r1 = Throw e"
    by (simp add: postWebhook_eq)
  with False have "processOne_try env cfg row ?s1 = (Throw e, ?s2)"
    by (simp add: processOne_try_start)
  then have evs: "new_events s (snd (processOne env cfg row s)) =
      [?post] @ new_events ?s2 (snd (processOne_catch env cfg row e ?s2))"
    using processOne_events[of env cfg row s "Throw e" "[?post]"] by simp
  obtain evs2 where "snd (processOne_catch env cfg row e ?s2) = ?s2\<lparr>trace := trace ?s2 @ evs2\<rparr>"
    and "filter ledger_call evs2 = []"
    and "webhook_posts evs2 = (if nullish row then [] else [failed_report row (error_message e)])"
    by (rule processOne_catch_cases[of env cfg row e ?s2])
  with False evs show ?thesis by (simp add: new_events_def)
qed


lemma webhook_result_ok [simp]: "webhook_result (Normal ok_response) = Normal (JObj [])"
  by (simp add: webhook_result_def ok_response_def res_ok_def)

lemma decimal_500 [simp]: "decimal 500 = ''500''"
  by (simp add: decimal.simps digit_def)

lemma webhook_result_failing [simp]:
  "webhook_result (Normal failing_response) = Throw (new_Error ''Webhook failed: 500 boom'')"
  by (simp add: webhook_result_def failing_response_def res_ok_def)

theorem processing_failure_aborts_witness:
  "postWebhook env_webhook_down cfg0 (processing_report row0) (s0\<lparr>inFlight := inFlight s0 + 1\<rparr>) =
     (Throw (new_Error ''Webhook failed: 500 boom''),
      s0\<lparr>inFlight := inFlight s0 + 1,
         trace := [Fetch (JStr ''https://db.example/hook'') (webhook_init (processing_report row0))
                     (Normal failing_response)]\<rparr>)
   \<and> filter ledger_call (new_events s0 (snd (processOne env_webhook_down cfg0 row0 s0))) = []
   \<and> webhook_posts (new_events s0 (snd (processOne env_webhook_down cfg0 row0 s0))) =
       [JObj [(''request_id'', JStr ''r1''), (''status'', JStr ''processing''),
              (''webhook_secret'', JStr ''s1'')],
        JObj [(''request_id'', JStr ''r1''), (''status'', JStr ''failed''),
              (''error_message'', JStr ''Webhook failed: 500 boom''),
              (''webhook_secret'', JStr ''s1'')]]"
proof -
  have post: "postWebhook env_webhook_down cfg0 (processing_report row0) (s0\<lparr>inFlight := inFlight s0 + 1\<rparr>) =
     (Throw (new_Error ''Webhook failed: 500 boom''),
      s0\<lparr>inFlight := inFlight s0 + 1,
         trace := [Fetch (JStr ''https://db.example/hook'') (webhook_init (processing_report row0))
                     (Normal failing_response)]\<rparr>)"
    by (simp add: postWebhook_eq env_webhook_down_def env0_def webhook_url_def cfg0_def env_val_def s0_def)
  have msg: "error_message (new_Error ''Webhook failed: 500 boom'') = ''Webhook failed: 500 boom''"
    by (simp add: error_message_def new_Error_def)
  from processing_failure_aborts[OF post] row0_not_nullish msg
  have "filter ledger_call (new_events s0 (snd (processOne env_webhook_down cfg0 row0 s0))) = []"
    and "webhook_posts (new_events s0 (snd (processOne env_webhook_down cfg0 row0 s0))) =
       [processing_report row0, failed_report row0 ''Webhook failed: 500 boom'']"
    by simp_all
  with post show ?thesis
    by (simp add: processing_report_def failed_report_def row0_def)
qed

section \<open>The result of the submission\<close>

lemma engine_tx_response [simp]: "engine (tx_response code hash) = JUndefined"
  by (simp add: engine_def tx_response_def opt_get_def js_or_def)

lemma txHash_tx_response [simp]: "txHash (tx_response code hash) = JUndefined"
  by (simp add: txHash_def tx_response_def opt_get_def js_or_def)

lemma TransactionResult_tx_response [simp]: "TransactionResult (tx_response code hash) = JStr code"
  by (simp add: TransactionResult_def tx_response_def)

lemma transaction_hash_tx_response [simp]: "transaction_hash (tx_response code hash) = JStr hash"
  by (simp add: transaction_hash_def tx_response_def)

lemma run0:
  "new_events s0 (snd (processOne env0 cfg0 row0 s0)) =
     [Fetch (JStr ''https://db.example/hook'') (webhook_init (processing_report row0)) (Normal ok_response),
      XrpToDrops ''10'' (Normal ''10000000''),
      Autofill (JStr ''wss://a.example'')
        (JObj [(''TransactionType'', JStr ''Payment''), (''Account'', JStr ''rHOT''),
               (''Amount'', JStr ''10000000''), (''Destination'', JStr ''rDEST'')])
        (Normal (JObj [(''TransactionType'', JStr ''Payment''), (''Account'', JStr ''rHOT''),
               (''Amount'', JStr ''10000000''), (''Destination'', JStr ''rDEST'')])),
      Sign ''rHOT'' (JObj [(''TransactionType'', JStr ''Payment''), (''Account'', JStr ''rHOT''),
               (''Amount'', JStr ''10000000''), (''Destination'', JStr ''rDEST'')])
        (Normal (JObj [(''tx_blob'', JStr ''BLOB''), (''hash'', JStr ''ABC123'')])),
      SubmitAndWait (JStr ''wss://a.example'') (JStr ''BLOB'') (Normal (tx_response ''tesSUCCESS'' ''ABC123'')),
      ConsoleError [JStr ''[PAYOUT] Failed'', JStr ''r1'', JStr ''Engine result: unknown''],
      Fetch (JStr ''https://db.example/hook'')
        (webhook_init (failed_report row0 ''Engine result: unknown''))
        (Normal ok_response)]"
  by (simp add: processOne_eq processOne_try_def bind_lift destructure_def bind_postWebhook
        bind_global bind_call of_sum_def get_member_def console_log_def emit_def Let_def throw_def
        processOne_catch_eq error_message_def opt_get_def js_or_def
        env0_def cfg0_def row0_def s0_def webhook_url_def env_val_def payment_tx_def
        processing_report_def failed_report_def new_events_def)

lemma run_rejecting:
  "new_events s0 (snd (processOne env_rejecting cfg0 row0 s0)) =
     [Fetch (JStr ''https://db.example/hook'') (webhook_init (processing_report row0)) (Normal ok_response),
      XrpToDrops ''10'' (Normal ''10000000''),
      Autofill (JStr ''wss://a.example'')
        (JObj [(''TransactionType'', JStr ''Payment''), (''Account'', JStr ''rHOT''),
               (''Amount'', JStr ''10000000''), (''Destination'', JStr ''rDEST'')])
        (Normal (JObj [(''TransactionType'', JStr ''Payment''), (''Account'', JStr ''rHOT''),
               (''Amount'', JStr ''10000000''), (''Destination'', JStr ''rDEST'')])),
      Sign ''rHOT'' (JObj [(''TransactionType'', JStr ''Payment''), (''Account'', JStr ''rHOT''),
               (''Amount'', JStr ''10000000''), (''Destination'', JStr ''rDEST'')])
        (Normal (JObj [(''tx_blob'', JStr ''BLOB''), (''hash'', JStr ''ABC123'')])),
      SubmitAndWait (JStr ''wss://a.example'') (JStr ''BLOB'') (Normal (tx_response ''tecUNFUNDED_PAYMENT'' ''ABC123'')),
      ConsoleError [JStr ''[PAYOUT] Failed'', JStr ''r1'', JStr ''Engine result: unknown''],
      Fetch (JStr ''https://db.example/hook'')
        (webhook_init (failed_report row0 ''Engine result: unknown''))
        (Normal ok_response)]"
  by (simp add: processOne_eq processOne_try_def bind_lift destructure_def bind_postWebhook
        bind_global bind_call of_sum_def get_member_def console_log_def emit_def Let_def throw_def
        processOne_catch_eq error_message_def opt_get_def js_or_def
        env_rejecting_def env0_def cfg0_def row0_def s0_def webhook_url_def env_val_def payment_tx_def
        processing_report_def failed_report_def new_events_def)

text \<open>
  C1. \<^verbatim>\<open>processOne\<close> takes the engine result from \<^verbatim>\<open>result.result.engine_result\<close> or
  \<^verbatim>\<open>result.engine_result\<close>, and the hash from \<^verbatim>\<open>tx_json.hash\<close>: fields that the response of
  \<^verbatim>\<open>submitAndWait\<close> does not have. For the row of the specification's scenario and a payment
  that the ledger validated with the engine result \<^verbatim>\<open>tesSUCCESS\<close> and the hash \<^verbatim>\<open>ABC123\<close>, both
  \<^verbatim>\<open>engine\<close> and \<^verbatim>\<open>txHash\<close> are undefined, the \<^verbatim>\<open>try\<close> block throws \<^verbatim>\<open>Engine result: unknown\<close>
  after the submission, and the reports posted are "processing" and then "failed". The
  payment, made with the amount in drops, is not reported "completed".
\<close>

theorem validated_payment_reported_failed:
  "TransactionResult (tx_response ''tesSUCCESS'' ''ABC123'') = JStr ''tesSUCCESS''
   \<and> transaction_hash (tx_response ''tesSUCCESS'' ''ABC123'') = JStr ''ABC123''
   \<and> engine (tx_response ''tesSUCCESS'' ''ABC123'') = JUndefined
   \<and> txHash (tx_response ''tesSUCCESS'' ''ABC123'') = JUndefined
   \<and> new_events s0 (snd (processOne env0 cfg0 row0 s0)) =
     [Fetch (JStr ''https://db.example/hook'') (webhook_init (processing_report row0)) (Normal ok_response),
      XrpToDrops ''10'' (Normal ''10000000''),
      Autofill (JStr ''wss://a.example'')
        (JObj [(''TransactionType'', JStr ''Payment''), (''Account'', JStr ''rHOT''),
               (''Amount'', JStr ''10000000''), (''Destination'', JStr ''rDEST'')])
        (Normal (JObj [(''TransactionType'', JStr ''Payment''), (''Account'', JStr ''rHOT''),
               (''Amount'', JStr ''10000000''), (''Destination'', JStr ''rDEST'')])),
      Sign ''rHOT'' (JObj [(''TransactionType'', JStr ''Payment''), (''Account'', JStr ''rHOT''),
               (''Amount'', JStr ''10000000''), (''Destination'', JStr ''rDEST'')])
        (Normal (JObj [(''tx_blob'', JStr ''BLOB''), (''hash'', JStr ''ABC123'')])),
      SubmitAndWait (JStr ''wss://a.example'') (JStr ''BLOB'') (Normal (tx_response ''tesSUCCESS'' ''ABC123'')),
      ConsoleError [JStr ''[PAYOUT] Failed'', JStr ''r1'', JStr ''Engine result: unknown''],
      Fetch (JStr ''https://db.example/hook'')
        (webhook_init (failed_report row0 ''Engine result: unknown''))
        (Normal ok_response)]
   \<and> webhook_posts (new_events s0 (snd (processOne env0 cfg0 row0 s0))) =
       [JObj [(''request_id'', JStr ''r1''), (''status'', JStr ''processing''),
              (''webhook_secret'', JStr ''s1'')],
        JObj [(''request_id'', JStr ''r1''), (''status'', JStr ''failed''),
              (''error_message'', JStr ''Engine result: unknown''),
              (''webhook_secret'', JStr ''s1'')]]"
proof -
  have "webhook_posts (new_events s0 (snd (processOne env0 cfg0 row0 s0))) =
       [JObj [(''request_id'', JStr ''r1''), (''status'', JStr ''processing''),
              (''webhook_secret'', JStr ''s1'')],
        JObj [(''request_id'', JStr ''r1''), (''status'', JStr ''failed''),
              (''error_message'', JStr ''Engine result: unknown''),
              (''webhook_secret'', JStr ''s1'')]]"
    unfolding run0 by (simp add: processing_report_def failed_report_def row0_def)
  then show ?thesis
    using run0 by simp
qed

text \<open>
  C2. By the same reading of the response, a payment that the ledger applied with the
  engine result \<^verbatim>\<open>tecUNFUNDED_PAYMENT\<close> is reported "processing" and then "failed", with no
  "completed" report, but the error message does not carry the code: it is
  \<^verbatim>\<open>Engine result: unknown\<close>.
\<close>

theorem rejected_payment_reported_unknown:
  "TransactionResult (tx_response ''tecUNFUNDED_PAYMENT'' ''ABC123'') = JStr ''tecUNFUNDED_PAYMENT''
   \<and> engine (tx_response ''tecUNFUNDED_PAYMENT'' ''ABC123'') = JUndefined
   \<and> SubmitAndWait (JStr ''wss://a.example'') (JStr ''BLOB'')
        (Normal (tx_response ''tecUNFUNDED_PAYMENT'' ''ABC123''))
      \<in> set (new_events s0 (snd (processOne env_rejecting cfg0 row0 s0)))
   \<and> webhook_posts (new_events s0 (snd (processOne env_rejecting cfg0 row0 s0))) =
       [JObj [(''request_id'', JStr ''r1''), (''status'', JStr ''processing''),
              (''webhook_secret'', JStr ''s1'')],
        JObj [(''request_id'', JStr ''r1''), (''status'', JStr ''failed''),
              (''error_message'', JStr ''Engine result: unknown''),
              (''webhook_secret'', JStr ''s1'')]]"
proof -
  have "webhook_posts (new_events s0 (snd (processOne env_rejecting cfg0 row0 s0))) =
       [JObj [(''request_id'', JStr ''r1''), (''status'', JStr ''processing''),
              (''webhook_secret'', JStr ''s1'')],
        JObj [(''request_id'', JStr ''r1''), (''status'', JStr ''failed''),
              (''error_message'', JStr ''Engine result: unknown''),
              (''webhook_secret'', JStr ''s1'')]]"
    unfolding run_rejecting by (simp add: processing_report_def failed_report_def row0_def)
  moreover have "SubmitAndWait (JStr ''wss://a.example'') (JStr ''BLOB'')
        (Normal (tx_response ''tecUNFUNDED_PAYMENT'' ''ABC123''))
      \<in> set (new_events s0 (snd (processOne env_rejecting cfg0 row0 s0)))"
    unfolding run_rejecting by simp
  ultimately show ?thesis
    by simp
qed

section \<open>Failures of the reports\<close>

lemma run_silent_error:
  "new_events s0 (snd (processOne env_silent_error cfg0 row0 s0)) =
     [Fetch (JStr ''https://db.example/hook'') (webhook_init (processing_report row0)) (Normal ok_response),
      XrpToDrops ''10'' (Normal ''10000000''),
      Autofill (JStr ''wss://a.example'')
        (JObj [(''TransactionType'', JStr ''Payment''), (''Account'', JStr ''rHOT''),
               (''Amount'', JStr ''10000000''), (''Destination'', JStr ''rDEST'')])
        (Throw (XrplError ''NotConnectedError'' [])),
      ConsoleError [JStr ''[PAYOUT] Failed'', JStr ''r1'', JStr []],
      Fetch (JStr ''https://db.example/hook'') (webhook_init (failed_report row0 ''[NotConnectedError()]''))
        (Normal ok_response)]"
  by (simp add: processOne_eq processOne_try_def bind_lift destructure_def bind_postWebhook
        bind_global bind_call of_sum_def get_member_def console_log_def emit_def Let_def throw_def
        processOne_catch_eq error_message_def opt_get_def js_or_def
        env_silent_error_def env0_def cfg0_def row0_def s0_def webhook_url_def env_val_def payment_tx_def
        processing_report_def failed_report_def new_events_def webhook_init_def)


lemma opt_get_present: "\<not> nullish v \<Longrightarrow> opt_get v k = get_prop v k"
  by (simp add: opt_get_def)

lemma is_report_simps [simp]:
  "is_report (Fetch u (webhook_init body) r)"
  "\<not> is_report (ConsoleLog args)"
  "\<not> is_report (ConsoleError args)"
  "\<not> is_report (XrpToDrops a rs)"
  "\<not> is_report (Autofill c tx rj)"
  "\<not> is_report (Sign w tx rj)"
  "\<not> is_report (SubmitAndWait c b rj)"
  by (simp_all add: is_report_def webhook_init_def)

lemma no_reports: "webhook_posts evs = [] \<Longrightarrow> ev \<in> set evs \<Longrightarrow> \<not> is_report ev"
  by (auto simp add: webhook_posts_def List.map_filter_def is_report_def filter_empty_conv)

lemma final_report_mem: "final_report evs = Some ev \<Longrightarrow> ev \<in> set evs \<and> is_report ev"
proof -
  assume a: "final_report evs = Some ev"
  then have ne: "filter is_report evs \<noteq> []" and "ev = last (filter is_report evs)"
    by (auto simp add: final_report_def split: if_splits)
  then have "ev \<in> set (filter is_report evs)"
    using last_in_set by blast
  then show ?thesis by simp
qed

lemma final_report_append:
  "filter is_report ys \<noteq> [] \<Longrightarrow> final_report (xs @ ys) = final_report ys"
  by (simp add: final_report_def)

lemma after_final_report_append:
  "filter is_report ys \<noteq> [] \<Longrightarrow> after_final_report (xs @ ys) = after_final_report ys"
proof -
  assume "filter is_report ys \<noteq> []"
  then obtain y where "y \<in> set ys" "is_report y"
    by (metis filter_empty_conv)
  then have "takeWhile (\<lambda>ev. \<not> is_report ev) (rev ys @ rev xs) = takeWhile (\<lambda>ev. \<not> is_report ev) (rev ys)"
    using takeWhile_append1[of y "rev ys" "\<lambda>ev. \<not> is_report ev" "rev xs"] by simp
  then show ?thesis by (simp add: after_final_report_def)
qed

lemma submit_payment_frame:
  "\<exists>evs. snd (submit_payment env am wa dt s) = s\<lparr>trace := trace s @ evs\<rparr> \<and> webhook_posts evs = []"
  using submit_payment_cases[of env am wa dt s] unfolding Let_def by blast

lemma try_report_failure:
  assumes mem: "Fetch u i r \<in> set (new_events s (snd (processOne_try env cfg row s)))"
      and rep: "is_report (Fetch u i r)"
      and bad: "webhook_result r = Throw e"
  shows "fst (processOne_try env cfg row s) = Throw e"
proof (cases "nullish row")
  case True
  then obtain e' where "processOne_try env cfg row s = (Throw e', s)"
    using processOne_try_nullish by blast
  with mem show ?thesis by simp
next
  case False
  let ?r1 = "fetch env (trace s) (webhook_url cfg) (webhook_init (processing_report row))"
  let ?post = "Fetch (webhook_url cfg) (webhook_init (processing_report row)) ?r1"
  let ?s1 = "s\<lparr>trace := trace s @ [?post]\<rparr>"
  let ?sp = "submit_payment env (get_prop row ''amount'') (get_prop row ''wallet_address'')
               (get_prop row ''destination_tag'') ?s1"
  show ?thesis
  proof (cases "webhook_result ?r1")
    case (Throw e1)
    with False have "processOne_try env cfg row s = (Throw e1, ?s1)"
      by (simp add: processOne_try_start)
    with mem bad Throw show ?thesis by simp
  next
    case Suspended
    with False have "processOne_try env cfg row s = (Suspended, ?s1)"
      by (simp add: processOne_try_start)
    with mem bad Suspended show ?thesis by simp
  next
    case (Normal v)
    with False have try_eq: "processOne_try env cfg row s =
        bind (submit_payment env (get_prop row ''amount'') (get_prop row ''wallet_address'')
                (get_prop row ''destination_tag''))
          (report env cfg (get_prop row ''id'') (get_prop row ''webhook_secret'')) ?s1"
      by (simp add: processOne_try_start)
    obtain evsP where "snd ?sp = ?s1\<lparr>trace := trace ?s1 @ evsP\<rparr>"
      and quietP: "webhook_posts evsP = []"
      using submit_payment_frame by blast
    then have frame: "snd ?sp = s\<lparr>trace := trace s @ ?post # evsP\<rparr>"
      by simp
    have notP: "Fetch u i r \<notin> set evsP"
      using no_reports[OF quietP] rep by blast
    let ?s2 = "s\<lparr>trace := trace s @ ?post # evsP\<rparr>"
    show ?thesis
    proof (cases "fst ?sp")
      case (Throw e2)
      with frame have "?sp = (Throw e2, ?s2)"
        by (simp add: prod_eq_iff)
      with try_eq have "processOne_try env cfg row s = (Throw e2, ?s2)"
        by (simp add: bind_def)
      with mem notP bad Normal show ?thesis by (auto simp add: new_events_def)
    next
      case Suspended
      with frame have "?sp = (Suspended, ?s2)"
        by (simp add: prod_eq_iff)
      with try_eq have "processOne_try env cfg row s = (Suspended, ?s2)"
        by (simp add: bind_def)
      with mem notP bad Normal show ?thesis by (auto simp add: new_events_def)
    next
      case (Normal result)
      with frame have "?sp = (Normal result, ?s2)"
        by (simp add: prod_eq_iff)
      with try_eq have t: "processOne_try env cfg row s =
          report env cfg (get_prop row ''id'') (get_prop row ''webhook_secret'') result ?s2"
        by (simp add: bind_def)
      let ?body = "JObj [(''request_id'', get_prop row ''id''), (''status'', JStr ''completed''),
                          (''tx_id'', txHash result), (''webhook_secret'', get_prop row ''webhook_secret'')]"
      let ?r2 = "fetch env (trace ?s2) (webhook_url cfg) (webhook_init ?body)"
      show ?thesis
      proof (cases "engine result \<noteq> JStr ''tesSUCCESS''")
        case True
        with t have "snd (processOne_try env cfg row s) = ?s2"
          by (simp add: report_eq)
        with mem notP bad \<open>webhook_result ?r1 = Normal v\<close> show ?thesis
          by (auto simp add: new_events_def)
      next
        case False
        show ?thesis
        proof (cases "webhook_result ?r2")
          case (Normal v2)
          with False t have "snd (processOne_try env cfg row s) =
              ?s2\<lparr>trace := trace ?s2 @ [Fetch (webhook_url cfg) (webhook_init ?body) ?r2,
                     ConsoleLog [JStr ''[PAYOUT] Success'', get_prop row ''id'', txHash result]]\<rparr>"
            by (simp add: report_eq Let_def)
          with mem notP bad \<open>webhook_result ?r1 = Normal v\<close> Normal show ?thesis
            by (auto simp add: new_events_def)
        next
          case Suspended
          with False t have "snd (processOne_try env cfg row s) =
              ?s2\<lparr>trace := trace ?s2 @ [Fetch (webhook_url cfg) (webhook_init ?body) ?r2]\<rparr>"
            by (simp add: report_eq Let_def)
          with mem notP bad \<open>webhook_result ?r1 = Normal v\<close> Suspended show ?thesis
            by (auto simp add: new_events_def)
        next
          case (Throw e2)
          with False t have "processOne_try env cfg row s =
              (Throw e2, ?s2\<lparr>trace := trace ?s2 @ [Fetch (webhook_url cfg) (webhook_init ?body) ?r2]\<rparr>)"
            by (simp add: report_eq Let_def)
          with mem notP bad \<open>webhook_result ?r1 = Normal v\<close> Throw show ?thesis
            by (auto simp add: new_events_def)
        qed
      qed
    qed
  qed
qed

lemma catch_events:
  assumes "\<not> nullish row"
  shows "new_events s (snd (processOne_catch env cfg row err s)) =
           [ConsoleError [JStr ''[PAYOUT] Failed'', get_prop row ''id'', JStr (err_message err)],
            Fetch (webhook_url cfg) (webhook_init (failed_report row (error_message err)))
              (fetch env (trace s @ [ConsoleError [JStr ''[PAYOUT] Failed'', get_prop row ''id'',
                        JStr (err_message err)]])
                 (webhook_url cfg) (webhook_init (failed_report row (error_message err))))]
           @ (case webhook_result
                     (fetch env (trace s @ [ConsoleError [JStr ''[PAYOUT] Failed'', get_prop row ''id'',
                          JStr (err_message err)]])
                        (webhook_url cfg) (webhook_init (failed_report row (error_message err)))) of
                Throw e \<Rightarrow> [ConsoleError [JStr ''[WEBHOOK] Error reporting failure:'',
                                           JStr (err_message e)]]
              | _ \<Rightarrow> [])"
  using assms
  by (simp add: processOne_catch_eq Let_def opt_get_present new_events_def split: completion.split)

lemma catch_outcome:
  assumes "\<not> nullish row"
  shows "fst (processOne_catch env cfg row err s) =
           (case webhook_result
                     (fetch env (trace s @ [ConsoleError [JStr ''[PAYOUT] Failed'', get_prop row ''id'',
                          JStr (err_message err)]])
                        (webhook_url cfg) (webhook_init (failed_report row (error_message err)))) of
              Suspended \<Rightarrow> Suspended | _ \<Rightarrow> Normal ())"
  using assms
  by (simp add: processOne_catch_eq Let_def opt_get_present split: completion.split)

lemma final_report_failure:
  assumes fin: "final_report (new_events s (snd (processOne env cfg row s))) = Some (Fetch url init r)"
      and bad: "webhook_result r = Throw e"
  shows "get_prop (get_prop init ''body'') ''status'' = JStr ''failed''
       \<and> after_final_report (new_events s (snd (processOne env cfg row s))) =
            [ConsoleError [JStr ''[WEBHOOK] Error reporting failure:'', JStr (err_message e)]]
       \<and> fst (processOne env cfg row s) = Normal ()"
proof (cases "nullish row")
  case True
  with fin show ?thesis
    by (simp add: processOne_nullish final_report_def)
next
  case False
  let ?s1 = "s\<lparr>inFlight := inFlight s + 1\<rparr>"
  obtain evs1 where f1: "snd (processOne_try env cfg row ?s1) = ?s1\<lparr>trace := trace ?s1 @ evs1\<rparr>"
    using processOne_try_frame by blast
  let ?s2 = "s\<lparr>inFlight := inFlight s + 1, trace := trace s @ evs1\<rparr>"
  from f1 have t: "processOne_try env cfg row ?s1 = (fst (processOne_try env cfg row ?s1), ?s2)"
    by (simp add: prod_eq_iff)
  have ev1: "new_events ?s1 (snd (processOne_try env cfg row ?s1)) = evs1"
    using f1 by (simp add: new_events_def)
  show ?thesis
  proof (cases "fst (processOne_try env cfg row ?s1)")
    case (Normal x)
    with processOne_events[OF t] have "new_events s (snd (processOne env cfg row s)) = evs1"
      by simp
    with fin have "Fetch url init r \<in> set evs1 \<and> is_report (Fetch url init r)"
      using final_report_mem by simp
    with try_report_failure[of url init r ?s1 env cfg row e] ev1 bad Normal show ?thesis
      by simp
  next
    case Suspended
    with processOne_events[OF t] have "new_events s (snd (processOne env cfg row s)) = evs1"
      by simp
    with fin have "Fetch url init r \<in> set evs1 \<and> is_report (Fetch url init r)"
      using final_report_mem by simp
    with try_report_failure[of url init r ?s1 env cfg row e] ev1 bad Suspended show ?thesis
      by simp
  next
    case (Throw err)
    let ?log = "ConsoleError [JStr ''[PAYOUT] Failed'', get_prop row ''id'', JStr (err_message err)]"
    let ?r3 = "fetch env (trace ?s2 @ [?log]) (webhook_url cfg) (webhook_init (failed_report row (error_message err)))"
    let ?post = "Fetch (webhook_url cfg) (webhook_init (failed_report row (error_message err))) ?r3"
    define tail where "tail = (case webhook_result ?r3 of
                Throw e \<Rightarrow> [ConsoleError [JStr ''[WEBHOOK] Error reporting failure:'',
                                           JStr (err_message e)]]
              | _ \<Rightarrow> [])"
    have quiet: "filter is_report tail = []"
      by (simp add: tail_def split: completion.split)
    have c: "new_events ?s2 (snd (processOne_catch env cfg row err ?s2)) = [?log, ?post] @ tail"
      using catch_events[OF False, of ?s2 env cfg err] by (simp add: tail_def)
    from processOne_events[OF t] Throw c
    have evs: "new_events s (snd (processOne env cfg row s)) = evs1 @ ([?log, ?post] @ tail)"
      by simp
    have rep: "filter is_report ([?log, ?post] @ tail) = [?post]"
      using quiet by simp
    then have "final_report (evs1 @ ([?log, ?post] @ tail)) = Some ?post"
      using final_report_append[of "[?log, ?post] @ tail" evs1] by (simp add: final_report_def)
    with fin have "Fetch url init r = ?post"
      unfolding evs by simp
    then have i: "init = webhook_init (failed_report row (error_message err))" and r: "r = ?r3"
      by simp_all
    from r bad have tail: "tail = [ConsoleError [JStr ''[WEBHOOK] Error reporting failure:'',
                                           JStr (err_message e)]]"
      by (simp add: tail_def)
    have "after_final_report (evs1 @ ([?log, ?post] @ tail)) = after_final_report ([?log, ?post] @ tail)"
      using after_final_report_append[of "[?log, ?post] @ tail" evs1] rep by simp
    then have a: "after_final_report (new_events s (snd (processOne env cfg row s))) = tail"
      unfolding evs by (simp add: after_final_report_def tail)
    from r bad have "fst (processOne_catch env cfg row err ?s2) = Normal ()"
      using catch_outcome[OF False, of env cfg err ?s2] by simp
    with t Throw have "fst (processOne env cfg row s) = Normal ()"
      by (cases "processOne_try env cfg row ?s1"; cases "processOne_catch env cfg row err ?s2")
         (simp add: processOne_eq)
    with i a tail show ?thesis
      by (simp add: webhook_init_def failed_report_def)
  qed
qed


lemma responsive_env_webhook_down: "responsive env_webhook_down"
  by (simp add: responsive_def env_webhook_down_def env0_def)

lemma run_webhook_down:
  "new_events s0 (snd (processOne env_webhook_down cfg0 row0 s0)) =
     [Fetch (JStr ''https://db.example/hook'') (webhook_init (processing_report row0)) (Normal failing_response),
      ConsoleError [JStr ''[PAYOUT] Failed'', JStr ''r1'', JStr ''Webhook failed: 500 boom''],
      Fetch (JStr ''https://db.example/hook'')
        (webhook_init (failed_report row0 ''Webhook failed: 500 boom'')) (Normal failing_response),
      ConsoleError [JStr ''[WEBHOOK] Error reporting failure:'', JStr ''Webhook failed: 500 boom'']]"
  by (simp add: processOne_eq processOne_try_start row0_not_nullish
        processOne_catch_eq error_message_def opt_get_def Let_def
        env_webhook_down_def env0_def cfg0_def s0_def webhook_url_def env_val_def new_events_def)
     (simp add: row0_def)


section \<open>Connecting to the ledger\<close>

lemma connect_loop_Cons:
  "connect_loop env (url # urls) s =
     (case Client_new env (trace s) url of
        Inl e \<Rightarrow>
          connect_loop env urls
            (s\<lparr>trace := trace s @ [NewClient url (Throw e),
                 ConsoleError [JStr ''[XRPL] Failed:'', url, JStr (err_message e)]]\<rparr>)
      | Inr u \<Rightarrow>
          (case Client_connect env (trace s @ [NewClient url (Normal ())]) url of
             Normal v \<Rightarrow>
               (Normal (),
                s\<lparr>client := Some url,
                   trace := trace s @ [NewClient url (Normal ()), Connect url (Normal ()),
                                       ConsoleLog [JStr ''[XRPL] Connected:'', url]]\<rparr>)
           | Throw e \<Rightarrow>
               connect_loop env urls
                 (s\<lparr>trace := trace s @ [NewClient url (Normal ()), Connect url (Throw e),
                      ConsoleError [JStr ''[XRPL] Failed:'', url, JStr (err_message e)]]\<rparr>)
           | Suspended \<Rightarrow>
               (Suspended,
                s\<lparr>trace := trace s @ [NewClient url (Normal ()), Connect url Suspended]\<rparr>)))"
  by (simp add: bind_def try_catch_def call_def Let_def of_sum_def modify_def console_log_def
        console_error_def emit_def return_def
        split: sum.split completion.split)

declare connect_loop.simps [simp del]

lemma attempted_simps [simp]:
  "attempted [] = []"
  "attempted (NewClient url r # evs) = url # attempted evs"
  "attempted (Connect url rc # evs) = attempted evs"
  "attempted (ConsoleLog args # evs) = attempted evs"
  "attempted (ConsoleError args # evs) = attempted evs"
  by (simp_all add: attempted_def List.map_filter_simps)

lemma sessions_simps [simp]:
  "sessions [] = []"
  "sessions (NewClient url r # evs) = sessions evs"
  "sessions (Connect url (Normal x) # evs) = url # sessions evs"
  "sessions (Connect url (Throw e) # evs) = sessions evs"
  "sessions (Connect url Suspended # evs) = sessions evs"
  "sessions (ConsoleLog args # evs) = sessions evs"
  "sessions (ConsoleError args # evs) = sessions evs"
  by (simp_all add: sessions_def List.map_filter_simps)

lemma connect_loop_run:
  "\<exists>evs. snd (connect_loop env urls s) =
           (if fst (connect_loop env urls s) = Normal ()
            then s\<lparr>client := Some (last (attempted evs)), trace := trace s @ evs\<rparr>
            else s\<lparr>trace := trace s @ evs\<rparr>)
       \<and> attempted evs = take (length (attempted evs)) urls
       \<and> (fst (connect_loop env urls s) = Normal () \<longrightarrow>
            attempted evs \<noteq> [] \<and> sessions evs = [last (attempted evs)]
            \<and> evs \<noteq> [] \<and> last evs = ConsoleLog [JStr ''[XRPL] Connected:'', last (attempted evs)])
       \<and> (\<forall>e. fst (connect_loop env urls s) = Throw e \<longrightarrow>
            e = new_Error ''No XRPL server reachable'' \<and> attempted evs = urls \<and> sessions evs = [])
       \<and> (fst (connect_loop env urls s) = Suspended \<longrightarrow> attempted evs \<noteq> [] \<and> sessions evs = [])"
proof (induction urls arbitrary: s)
  case Nil
  show ?case by (intro exI[of _ "[]"]) (simp add: connect_loop.simps throw_def)
next
  case (Cons url urls)
  have step: ?case
    if next_eq: "connect_loop env (url # urls) s = connect_loop env urls (s\<lparr>trace := trace s @ pre\<rparr>)"
      and pre: "attempted pre = [url]" "sessions pre = []"
    for pre
  proof -
    let ?s' = "s\<lparr>trace := trace s @ pre\<rparr>"
    from Cons.IH[of ?s'] obtain evs where
      st: "snd (connect_loop env urls ?s') =
           (if fst (connect_loop env urls ?s') = Normal ()
            then ?s'\<lparr>client := Some (last (attempted evs)), trace := trace ?s' @ evs\<rparr>
            else ?s'\<lparr>trace := trace ?s' @ evs\<rparr>)"
      and tr: "attempted evs = take (length (attempted evs)) urls"
      and ok: "fst (connect_loop env urls ?s') = Normal () \<longrightarrow>
            attempted evs \<noteq> [] \<and> sessions evs = [last (attempted evs)]
            \<and> evs \<noteq> [] \<and> last evs = ConsoleLog [JStr ''[XRPL] Connected:'', last (attempted evs)]"
      and th: "\<forall>e. fst (connect_loop env urls ?s') = Throw e \<longrightarrow>
            e = new_Error ''No XRPL server reachable'' \<and> attempted evs = urls \<and> sessions evs = []"
      and su: "fst (connect_loop env urls ?s') = Suspended \<longrightarrow> attempted evs \<noteq> [] \<and> sessions evs = []"
      by blast
    have att: "attempted (pre @ evs) = url # attempted evs"
      using pre by (simp add: attempted_def List.map_filter_def)
    have ses: "sessions (pre @ evs) = sessions evs"
      using pre by (simp add: sessions_def List.map_filter_def)
    from tr have tr': "attempted (pre @ evs) = take (length (attempted (pre @ evs))) (url # urls)"
      by (simp add: att)
    show ?thesis
      unfolding next_eq
      using st tr' ok th su att ses
      by (intro exI[of _ "pre @ evs"]) auto
  qed
  show ?case
  proof (cases "Client_new env (trace s) url")
    case (Inl e)
    then show ?thesis
      by (intro step[of "[NewClient url (Throw e),
                 ConsoleError [JStr ''[XRPL] Failed:'', url, JStr (err_message e)]]"])
         (simp_all add: connect_loop_Cons)
  next
    case (Inr u)
    show ?thesis
    proof (cases "Client_connect env (trace s @ [NewClient url (Normal ())]) url")
      case (Normal v)
      with Inr show ?thesis
        by (intro exI[of _ "[NewClient url (Normal ()), Connect url (Normal ()),
                                       ConsoleLog [JStr ''[XRPL] Connected:'', url]]"])
           (simp add: connect_loop_Cons)
    next
      case (Throw e)
      with Inr show ?thesis
        by (intro step[of "[NewClient url (Normal ()), Connect url (Throw e),
                      ConsoleError [JStr ''[XRPL] Failed:'', url, JStr (err_message e)]]"])
           (simp_all add: connect_loop_Cons)
    next
      case Suspended
      with Inr show ?thesis
        by (intro exI[of _ "[NewClient url (Normal ()), Connect url Suspended]"])
           (simp add: connect_loop_Cons)
    qed
  qed
qed


lemma WS_DEFAULTS_eq:
  "WS_DEFAULTS cfg =
     (case XRPL_SERVERS cfg of
        None \<Rightarrow> JArr (filter truthy [env_val (XRPL_SERVER cfg)])
      | Some v \<Rightarrow> JArr (filter truthy (map (\<lambda>s. JStr (trim s)) (split CHR '','' v))))"
  by (simp add: WS_DEFAULTS_def js_or_def split: option.split)

lemma WS_DEFAULTS_array: "WS_DEFAULTS cfg = JArr (endpoints cfg)"
  by (simp add: endpoints_def WS_DEFAULTS_eq split: option.split)

lemma connectClient_eq: "connectClient env cfg s = connect_loop env (endpoints cfg) s"
  by (simp add: connectClient_def WS_DEFAULTS_array bind_lift)

lemma connect_loop_settles:
  assumes "\<forall>h u. Client_connect env h u \<noteq> Suspended"
  shows "fst (connect_loop env urls s) \<noteq> Suspended"
proof (induction urls arbitrary: s)
  case Nil
  show ?case by (simp add: connect_loop.simps throw_def)
next
  case (Cons url urls)
  show ?case
  proof (cases "Client_new env (trace s) url")
    case (Inl e)
    with Cons show ?thesis by (simp add: connect_loop_Cons)
  next
    case (Inr u)
    with Cons assms show ?thesis
      by (cases "Client_connect env (trace s @ [NewClient url (Normal ())]) url")
         (simp_all add: connect_loop_Cons)
  qed
qed

lemma connect_loop_refused:
  assumes "\<forall>u\<in>set urls. refuses env u"
  shows "\<exists>evs. connect_loop env urls s =
           (Throw (new_Error ''No XRPL server reachable''), s\<lparr>trace := trace s @ evs\<rparr>)
         \<and> attempted evs = urls \<and> sessions evs = []"
  using assms
proof (induction urls arbitrary: s)
  case Nil
  show ?case by (intro exI[of _ "[]"]) (simp add: connect_loop.simps throw_def)
next
  case (Cons url urls)
  then have rest: "\<forall>u\<in>set urls. refuses env u" and this_one: "refuses env url"
    by simp_all
  have step: ?case
    if next_eq: "connect_loop env (url # urls) s = connect_loop env urls (s\<lparr>trace := trace s @ pre\<rparr>)"
      and pre: "attempted pre = [url]" "sessions pre = []"
    for pre
  proof -
    from Cons.IH[OF rest, of "s\<lparr>trace := trace s @ pre\<rparr>"] obtain evs where
      "connect_loop env urls (s\<lparr>trace := trace s @ pre\<rparr>) =
         (Throw (new_Error ''No XRPL server reachable''), s\<lparr>trace := trace s @ pre @ evs\<rparr>)"
      "attempted evs = urls" "sessions evs = []"
      by auto
    moreover have "attempted (pre @ evs) = url # attempted evs" "sessions (pre @ evs) = sessions evs"
      using pre by (simp_all add: attempted_def sessions_def List.map_filter_def)
    ultimately show ?thesis
      unfolding next_eq by (intro exI[of _ "pre @ evs"]) simp
  qed
  show ?case
  proof (cases "Client_new env (trace s) url")
    case (Inl e)
    then show ?thesis
      by (intro step[of "[NewClient url (Throw e),
                 ConsoleError [JStr ''[XRPL] Failed:'', url, JStr (err_message e)]]"])
         (simp_all add: connect_loop_Cons)
  next
    case (Inr u)
    with this_one obtain e where "Client_connect env (trace s @ [NewClient url (Normal ())]) url = Throw e"
      unfolding refuses_def
      by (metis Inl_Inr_False)
    with Inr show ?thesis
      by (intro step[of "[NewClient url (Normal ()), Connect url (Throw e),
                      ConsoleError [JStr ''[XRPL] Failed:'', url, JStr (err_message e)]]"])
         (simp_all add: connect_loop_Cons)
  qed
qed

lemma connect_loop_first:
  assumes "\<forall>u\<in>set pre. refuses env u" and "accepts env url"
  shows "\<exists>evs. connect_loop env (pre @ url # rest) s =
           (Normal (), s\<lparr>client := Some url, trace := trace s @ evs\<rparr>)
         \<and> attempted evs = pre @ [url] \<and> sessions evs = [url]"
  using assms(1)
proof (induction pre arbitrary: s)
  case Nil
  from assms(2) have "Client_new env (trace s) url = Inr ()"
    "Client_connect env (trace s @ [NewClient url (Normal ())]) url = Normal ()"
    by (simp_all add: accepts_def)
  then show ?case
    by (intro exI[of _ "[NewClient url (Normal ()), Connect url (Normal ()),
                         ConsoleLog [JStr ''[XRPL] Connected:'', url]]"])
       (simp add: connect_loop_Cons)
next
  case (Cons u pre)
  then have rest: "\<forall>u\<in>set pre. refuses env u" and this_one: "refuses env u"
    by simp_all
  have step: ?case
    if next_eq: "connect_loop env (u # pre @ url # rest) s =
                   connect_loop env (pre @ url # rest) (s\<lparr>trace := trace s @ p\<rparr>)"
      and p: "attempted p = [u]" "sessions p = []"
    for p
  proof -
    from Cons.IH[OF rest, of "s\<lparr>trace := trace s @ p\<rparr>"] obtain evs where
      "connect_loop env (pre @ url # rest) (s\<lparr>trace := trace s @ p\<rparr>) =
         (Normal (), s\<lparr>client := Some url, trace := trace s @ p @ evs\<rparr>)"
      "attempted evs = pre @ [url]" "sessions evs = [url]"
      by auto
    moreover have "attempted (p @ evs) = u # attempted evs" "sessions (p @ evs) = sessions evs"
      using p by (simp_all add: attempted_def sessions_def List.map_filter_def)
    ultimately show ?thesis
      using next_eq by (intro exI[of _ "p @ evs"]) simp
  qed
  show ?case
  proof (cases "Client_new env (trace s) u")
    case (Inl e)
    then show ?thesis
      by (intro step[of "[NewClient u (Throw e),
                 ConsoleError [JStr ''[XRPL] Failed:'', u, JStr (err_message e)]]"])
         (simp_all add: connect_loop_Cons)
  next
    case (Inr x)
    with this_one obtain e where "Client_connect env (trace s @ [NewClient u (Normal ())]) u = Throw e"
      unfolding refuses_def
      by (metis Inl_Inr_False)
    with Inr show ?thesis
      by (intro step[of "[NewClient u (Normal ()), Connect u (Throw e),
                      ConsoleError [JStr ''[XRPL] Failed:'', u, JStr (err_message e)]]"])
         (simp_all add: connect_loop_Cons)
  qed
qed

text \<open>
  C7. \<^verbatim>\<open>connectClient\<close> tries the endpoints of \<^verbatim>\<open>WS_DEFAULTS\<close> in order: the endpoints tried are
  an initial stretch of the list. When it returns, exactly one connection was made, to the
  last endpoint tried, which is now the \<^verbatim>\<open>client\<close>, and the last call is the log of that
  connection. When it throws, the error is \<^verbatim>\<open>No XRPL server reachable\<close>, every endpoint was
  tried, none connected, and \<^verbatim>\<open>client\<close> is unchanged. It always returns or throws when every
  \<^verbatim>\<open>connect\<close> is answered; while a \<^verbatim>\<open>connect\<close> is pending no session is stored. If no endpoint
  can be connected to, it throws that error after trying them all; if the endpoints
  before some endpoint cannot be connected to and that one accepts the connection, it
  returns with that endpoint as the \<^verbatim>\<open>client\<close>, having tried no endpoint after it.
\<close>

theorem connectClient_spec:
  "WS_DEFAULTS cfg = JArr (endpoints cfg)
   \<and> attempted (new_events s (snd (connectClient env cfg s))) =
       take (length (attempted (new_events s (snd (connectClient env cfg s))))) (endpoints cfg)
   \<and> (fst (connectClient env cfg s) = Normal () \<longrightarrow>
        attempted (new_events s (snd (connectClient env cfg s))) \<noteq> []
        \<and> sessions (new_events s (snd (connectClient env cfg s))) =
            [last (attempted (new_events s (snd (connectClient env cfg s))))]
        \<and> client (snd (connectClient env cfg s)) =
            Some (last (attempted (new_events s (snd (connectClient env cfg s)))))
        \<and> last (new_events s (snd (connectClient env cfg s))) =
            ConsoleLog [JStr ''[XRPL] Connected:'',
                        last (attempted (new_events s (snd (connectClient env cfg s))))])
   \<and> (\<forall>e. fst (connectClient env cfg s) = Throw e \<longrightarrow>
        e = new_Error ''No XRPL server reachable''
        \<and> attempted (new_events s (snd (connectClient env cfg s))) = endpoints cfg
        \<and> sessions (new_events s (snd (connectClient env cfg s))) = []
        \<and> client (snd (connectClient env cfg s)) = client s)
   \<and> (sessions (new_events s (snd (connectClient env cfg s))) = []
        \<and> fst (connectClient env cfg s) \<noteq> Suspended \<longrightarrow>
        fst (connectClient env cfg s) = Throw (new_Error ''No XRPL server reachable''))
   \<and> ((\<forall>h u. Client_connect env h u \<noteq> Suspended) \<longrightarrow>
        fst (connectClient env cfg s) \<noteq> Suspended)
   \<and> (fst (connectClient env cfg s) = Suspended \<longrightarrow>
        attempted (new_events s (snd (connectClient env cfg s))) \<noteq> []
        \<and> sessions (new_events s (snd (connectClient env cfg s))) = []
        \<and> client (snd (connectClient env cfg s)) = client s)
   \<and> ((\<forall>u\<in>set (endpoints cfg). refuses env u) \<longrightarrow>
        fst (connectClient env cfg s) = Throw (new_Error ''No XRPL server reachable'')
        \<and> attempted (new_events s (snd (connectClient env cfg s))) = endpoints cfg
        \<and> sessions (new_events s (snd (connectClient env cfg s))) = []
        \<and> client (snd (connectClient env cfg s)) = client s)
   \<and> (\<forall>pre url rest.
        endpoints cfg = pre @ url # rest \<and> (\<forall>u\<in>set pre. refuses env u) \<and> accepts env url \<longrightarrow>
        fst (connectClient env cfg s) = Normal ()
        \<and> attempted (new_events s (snd (connectClient env cfg s))) = pre @ [url]
        \<and> sessions (new_events s (snd (connectClient env cfg s))) = [url]
        \<and> client (snd (connectClient env cfg s)) = Some url)"
proof -
  obtain evs where
    st: "snd (connect_loop env (endpoints cfg) s) =
           (if fst (connect_loop env (endpoints cfg) s) = Normal ()
            then s\<lparr>client := Some (last (attempted evs)), trace := trace s @ evs\<rparr>
            else s\<lparr>trace := trace s @ evs\<rparr>)"
    and tr: "attempted evs = take (length (attempted evs)) (endpoints cfg)"
    and ok: "fst (connect_loop env (endpoints cfg) s) = Normal () \<longrightarrow>
            attempted evs \<noteq> [] \<and> sessions evs = [last (attempted evs)]
            \<and> evs \<noteq> [] \<and> last evs = ConsoleLog [JStr ''[XRPL] Connected:'', last (attempted evs)]"
    and th: "\<forall>e. fst (connect_loop env (endpoints cfg) s) = Throw e \<longrightarrow>
            e = new_Error ''No XRPL server reachable'' \<and> attempted evs = endpoints cfg \<and> sessions evs = []"
    and su: "fst (connect_loop env (endpoints cfg) s) = Suspended \<longrightarrow> attempted evs \<noteq> [] \<and> sessions evs = []"
    using connect_loop_run[of env "endpoints cfg" s] by blast
  from st have evs: "new_events s (snd (connectClient env cfg s)) = evs"
    by (simp add: connectClient_eq new_events_def split: if_splits)
  have run: "WS_DEFAULTS cfg = JArr (endpoints cfg)
   \<and> attempted (new_events s (snd (connectClient env cfg s))) =
       take (length (attempted (new_events s (snd (connectClient env cfg s))))) (endpoints cfg)
   \<and> (fst (connectClient env cfg s) = Normal () \<longrightarrow>
        attempted (new_events s (snd (connectClient env cfg s))) \<noteq> []
        \<and> sessions (new_events s (snd (connectClient env cfg s))) =
            [last (attempted (new_events s (snd (connectClient env cfg s))))]
        \<and> client (snd (connectClient env cfg s)) =
            Some (last (attempted (new_events s (snd (connectClient env cfg s)))))
        \<and> last (new_events s (snd (connectClient env cfg s))) =
            ConsoleLog [JStr ''[XRPL] Connected:'',
                        last (attempted (new_events s (snd (connectClient env cfg s))))])
   \<and> (\<forall>e. fst (connectClient env cfg s) = Throw e \<longrightarrow>
        e = new_Error ''No XRPL server reachable''
        \<and> attempted (new_events s (snd (connectClient env cfg s))) = endpoints cfg
        \<and> sessions (new_events s (snd (connectClient env cfg s))) = []
        \<and> client (snd (connectClient env cfg s)) = client s)
   \<and> (sessions (new_events s (snd (connectClient env cfg s))) = []
        \<and> fst (connectClient env cfg s) \<noteq> Suspended \<longrightarrow>
        fst (connectClient env cfg s) = Throw (new_Error ''No XRPL server reachable''))
   \<and> (fst (connectClient env cfg s) = Suspended \<longrightarrow>
        attempted (new_events s (snd (connectClient env cfg s))) \<noteq> []
        \<and> sessions (new_events s (snd (connectClient env cfg s))) = []
        \<and> client (snd (connectClient env cfg s)) = client s)"
  proof (cases "fst (connect_loop env (endpoints cfg) s)")
    case (Normal x)
    with st tr ok show ?thesis
      unfolding evs by (simp add: connectClient_eq WS_DEFAULTS_array)
  next
    case (Throw e)
    with st tr th show ?thesis
      unfolding evs by (simp add: connectClient_eq WS_DEFAULTS_array)
  next
    case Suspended
    with st tr su show ?thesis
      unfolding evs by (simp add: connectClient_eq WS_DEFAULTS_array)
  qed
  have settle: "fst (connectClient env cfg s) \<noteq> Suspended" if "\<forall>h u. Client_connect env h u \<noteq> Suspended"
    using connect_loop_settles[OF that] by (simp add: connectClient_eq)
  have refused: "fst (connectClient env cfg s) = Throw (new_Error ''No XRPL server reachable'')
        \<and> attempted (new_events s (snd (connectClient env cfg s))) = endpoints cfg
        \<and> sessions (new_events s (snd (connectClient env cfg s))) = []
        \<and> client (snd (connectClient env cfg s)) = client s"
    if "\<forall>u\<in>set (endpoints cfg). refuses env u"
  proof -
    from connect_loop_refused[OF that, of s] obtain evs' where
      "connect_loop env (endpoints cfg) s =
         (Throw (new_Error ''No XRPL server reachable''), s\<lparr>trace := trace s @ evs'\<rparr>)"
      "attempted evs' = endpoints cfg" "sessions evs' = []"
      by blast
    then show ?thesis by (simp add: connectClient_eq)
  qed
  have first: "fst (connectClient env cfg s) = Normal ()
        \<and> attempted (new_events s (snd (connectClient env cfg s))) = pre @ [url]
        \<and> sessions (new_events s (snd (connectClient env cfg s))) = [url]
        \<and> client (snd (connectClient env cfg s)) = Some url"
    if "endpoints cfg = pre @ url # rest \<and> (\<forall>u\<in>set pre. refuses env u) \<and> accepts env url"
    for pre url rest
  proof -
    from that have e: "endpoints cfg = pre @ url # rest" and r: "\<forall>u\<in>set pre. refuses env u"
      and a: "accepts env url"
      by simp_all
    from connect_loop_first[OF r a, of rest s] obtain evs' where
      "connect_loop env (pre @ url # rest) s =
         (Normal (), s\<lparr>client := Some url, trace := trace s @ evs'\<rparr>)"
      "attempted evs' = pre @ [url]" "sessions evs' = [url]"
      by blast
    then show ?thesis by (simp add: connectClient_eq e new_events_def)
  qed
  from run settle refused first show ?thesis
    by blast
qed

lemma endpoints_cfg0: "endpoints cfg0 = [JStr ''wss://a.example'', JStr ''wss://b.example'']"
  by (simp add: endpoints_def WS_DEFAULTS_eq cfg0_def trim_def is_space_def)

lemma refuses_all_down: "refuses env_all_down url"
  by (simp add: refuses_def env_all_down_def)

lemma refuses_first_down: "refuses env_first_down (JStr ''wss://a.example'')"
  by (simp add: refuses_def env_first_down_def)

lemma accepts_first_down: "accepts env_first_down (JStr ''wss://b.example'')"
  by (simp add: accepts_def env_first_down_def env0_def)

theorem connectClient_spec_witness:
  "endpoints cfg0 = [JStr ''wss://a.example'', JStr ''wss://b.example'']
   \<and> refuses env_first_down (JStr ''wss://a.example'') \<and> accepts env_first_down (JStr ''wss://b.example'')
   \<and> fst (connectClient env_first_down cfg0 s0) = Normal ()
   \<and> attempted (new_events s0 (snd (connectClient env_first_down cfg0 s0))) =
       [JStr ''wss://a.example'', JStr ''wss://b.example'']
   \<and> sessions (new_events s0 (snd (connectClient env_first_down cfg0 s0))) = [JStr ''wss://b.example'']
   \<and> client (snd (connectClient env_first_down cfg0 s0)) = Some (JStr ''wss://b.example'')
   \<and> refuses env_all_down (JStr ''wss://a.example'') \<and> refuses env_all_down (JStr ''wss://b.example'')
   \<and> fst (connectClient env_all_down cfg0 s0) = Throw (new_Error ''No XRPL server reachable'')
   \<and> attempted (new_events s0 (snd (connectClient env_all_down cfg0 s0))) =
       [JStr ''wss://a.example'', JStr ''wss://b.example'']
   \<and> sessions (new_events s0 (snd (connectClient env_all_down cfg0 s0))) = []
   \<and> client (snd (connectClient env_all_down cfg0 s0)) = client s0"
proof -
  have e: "endpoints cfg0 = [JStr ''wss://a.example''] @ JStr ''wss://b.example'' # []"
    by (simp add: endpoints_cfg0)
  have pre: "\<forall>u\<in>set [JStr ''wss://a.example'']. refuses env_first_down u"
    by (simp add: refuses_first_down)
  from connectClient_spec[of cfg0 s0 env_first_down] e pre accepts_first_down
  have first: "fst (connectClient env_first_down cfg0 s0) = Normal ()
        \<and> attempted (new_events s0 (snd (connectClient env_first_down cfg0 s0))) =
            [JStr ''wss://a.example''] @ [JStr ''wss://b.example'']
        \<and> sessions (new_events s0 (snd (connectClient env_first_down cfg0 s0))) = [JStr ''wss://b.example'']
        \<and> client (snd (connectClient env_first_down cfg0 s0)) = Some (JStr ''wss://b.example'')"
    by blast
  have "\<forall>u\<in>set (endpoints cfg0). refuses env_all_down u"
    by (simp add: refuses_all_down)
  with connectClient_spec[of cfg0 s0 env_all_down]
  have none: "fst (connectClient env_all_down cfg0 s0) = Throw (new_Error ''No XRPL server reachable'')
        \<and> attempted (new_events s0 (snd (connectClient env_all_down cfg0 s0))) = endpoints cfg0
        \<and> sessions (new_events s0 (snd (connectClient env_all_down cfg0 s0))) = []
        \<and> client (snd (connectClient env_all_down cfg0 s0)) = client s0"
    by blast
  from first none show ?thesis
    using endpoints_cfg0 refuses_first_down accepts_first_down refuses_all_down by simp
qed

text \<open>
  C10. \<^verbatim>\<open>WS_DEFAULTS\<close> never takes the hardcoded endpoints: it is the list from
  \<^verbatim>\<open>XRPL_SERVERS\<close> when that is set, and else what \<^verbatim>\<open>[XRPL_SERVER].filter(Boolean)\<close> gives.
  With neither variable set it is the empty list, and \<^verbatim>\<open>connectClient\<close> throws
  \<^verbatim>\<open>No XRPL server reachable\<close> without a single call.
\<close>

theorem no_endpoint_configured:
  "WS_DEFAULTS cfg =
     (case XRPL_SERVERS cfg of
        None \<Rightarrow> JArr (filter truthy [env_val (XRPL_SERVER cfg)])
      | Some v \<Rightarrow> JArr (filter truthy (map (\<lambda>s. JStr (trim s)) (split CHR '','' v))))
   \<and> (XRPL_SERVERS cfg = None \<and> XRPL_SERVER cfg = None \<longrightarrow>
        WS_DEFAULTS cfg = JArr []
        \<and> connectClient env cfg s = (Throw (new_Error ''No XRPL server reachable''), s))"
  by (simp add: WS_DEFAULTS_eq connectClient_def bind_lift env_val_def connect_loop.simps throw_def)

theorem no_endpoint_configured_witness:
  "XRPL_SERVERS cfg_bare = None \<and> XRPL_SERVER cfg_bare = None
   \<and> WS_DEFAULTS cfg_bare = JArr []
   \<and> connectClient env0 cfg_bare s0 = (Throw (new_Error ''No XRPL server reachable''), s0)"
proof -
  have unset: "XRPL_SERVERS cfg_bare = None" "XRPL_SERVER cfg_bare = None"
    by (simp_all add: cfg_bare_def)
  with no_endpoint_configured[of cfg_bare env0 s0] show ?thesis
    by blast
qed

section \<open>Reading the queue\<close>

text \<open>
  C8. \<^verbatim>\<open>fetchQueued(limit)\<close> makes exactly one call, a \<^verbatim>\<open>fetch\<close> with no method (a GET) of the
  URL that selects \<^verbatim>\<open>status=eq.queued\<close> and \<^verbatim>\<open>chain=eq.XRP\<close>, orders by \<^verbatim>\<open>requested_at.asc\<close> and
  ends with \<^verbatim>\<open>limit=\<close> and the limit (in decimal when it is a natural number up to \<open>2^53\<close>), with the
  service-role key as \<^verbatim>\<open>apikey\<close> and as bearer credential. On a response outside 200..299
  whose body can be read it throws \<^verbatim>\<open>Fetch queued failed: \<close> with the status and the body; on
  a response in 200..299 it returns the parsed JSON.
\<close>

theorem fetchQueued_spec:
  "snd (fetchQueued env cfg limit_arg s) =
     s\<lparr>trace := trace s @
        [Fetch (JStr (fetchQueued_url env cfg (case limit_arg of None \<Rightarrow> Fin 5 | Some n \<Rightarrow> n)))
           (JObj [(''headers'', supabaseHeaders cfg)])
           (fetch env (trace s)
              (JStr (fetchQueued_url env cfg (case limit_arg of None \<Rightarrow> Fin 5 | Some n \<Rightarrow> n)))
              (JObj [(''headers'', supabaseHeaders cfg)]))]\<rparr>
   \<and> fetchQueued_url env cfg limit =
       template (SUPABASE_URL cfg)
       @ ''/rest/v1/payout_requests?status=eq.queued&chain=eq.XRP&order=requested_at.asc&limit=''
       @ num_to_string env limit
   \<and> (\<forall>n. n \<le> 2 ^ 53 \<longrightarrow> num_to_string env (Fin (real n)) = decimal n)
   \<and> supabaseHeaders cfg =
       JObj [(''apikey'', env_val (SUPABASE_SERVICE_ROLE_KEY cfg)),
             (''Authorization'', JStr (''Bearer '' @ template (SUPABASE_SERVICE_ROLE_KEY cfg))),
             (''Content-Type'', JStr ''application/json'')]
   \<and> (\<forall>res t.
        fetch env (trace s)
          (JStr (fetchQueued_url env cfg (case limit_arg of None \<Rightarrow> Fin 5 | Some n \<Rightarrow> n)))
          (JObj [(''headers'', supabaseHeaders cfg)]) = Normal res
        \<and> \<not> (200 \<le> res_status res \<and> res_status res \<le> 299) \<and> res_text res = Inr t \<longrightarrow>
        fst (fetchQueued env cfg limit_arg s) =
          Throw (new_Error (''Fetch queued failed: '' @ decimal (res_status res) @ '' '' @ t)))
   \<and> (\<forall>res v.
        fetch env (trace s)
          (JStr (fetchQueued_url env cfg (case limit_arg of None \<Rightarrow> Fin 5 | Some n \<Rightarrow> n)))
          (JObj [(''headers'', supabaseHeaders cfg)]) = Normal res
        \<and> 200 \<le> res_status res \<and> res_status res \<le> 299 \<and> res_json res = Inr v \<longrightarrow>
        fst (fetchQueued env cfg limit_arg s) = Normal v)"
proof (intro conjI allI impI)
  show "snd (fetchQueued env cfg limit_arg s) =
     s\<lparr>trace := trace s @
        [Fetch (JStr (fetchQueued_url env cfg (case limit_arg of None \<Rightarrow> Fin 5 | Some n \<Rightarrow> n)))
           (JObj [(''headers'', supabaseHeaders cfg)])
           (fetch env (trace s)
              (JStr (fetchQueued_url env cfg (case limit_arg of None \<Rightarrow> Fin 5 | Some n \<Rightarrow> n)))
              (JObj [(''headers'', supabaseHeaders cfg)]))]\<rparr>"
    by (simp add: fetchQueued_def Let_def bind_call bind_lift throw_def lift_def
          split: completion.split sum.split)
  show "fetchQueued_url env cfg limit =
       template (SUPABASE_URL cfg)
       @ ''/rest/v1/payout_requests?status=eq.queued&chain=eq.XRP&order=requested_at.asc&limit=''
       @ num_to_string env limit"
    by (simp add: fetchQueued_url_def)
  show "num_to_string env (Fin (real n)) = decimal n" if "n \<le> 2 ^ 53" for n :: nat
  proof -
    from that have "real n \<le> 2 ^ 53"
      by (metis of_nat_le_iff of_nat_numeral of_nat_power)
    then show ?thesis
      by (simp add: num_to_string_def int_to_string_def)
  qed
  show "supabaseHeaders cfg =
       JObj [(''apikey'', env_val (SUPABASE_SERVICE_ROLE_KEY cfg)),
             (''Authorization'', JStr (''Bearer '' @ template (SUPABASE_SERVICE_ROLE_KEY cfg))),
             (''Content-Type'', JStr ''application/json'')]"
    by (simp add: supabaseHeaders_def)
  show "fst (fetchQueued env cfg limit_arg s) =
          Throw (new_Error (''Fetch queued failed: '' @ decimal (res_status res) @ '' '' @ t))"
    if "fetch env (trace s)
          (JStr (fetchQueued_url env cfg (case limit_arg of None \<Rightarrow> Fin 5 | Some n \<Rightarrow> n)))
          (JObj [(''headers'', supabaseHeaders cfg)]) = Normal res
        \<and> \<not> (200 \<le> res_status res \<and> res_status res \<le> 299) \<and> res_text res = Inr t" for res t
    using that
    by (simp add: fetchQueued_def Let_def bind_call bind_lift throw_def res_ok_def)
  show "fst (fetchQueued env cfg limit_arg s) = Normal v"
    if "fetch env (trace s)
          (JStr (fetchQueued_url env cfg (case limit_arg of None \<Rightarrow> Fin 5 | Some n \<Rightarrow> n)))
          (JObj [(''headers'', supabaseHeaders cfg)]) = Normal res
        \<and> 200 \<le> res_status res \<and> res_status res \<le> 299 \<and> res_json res = Inr v" for res v
    using that
    by (simp add: fetchQueued_def Let_def bind_call lift_def of_sum_def res_ok_def)
qed

lemma decimal_2 [simp]: "decimal 2 = ''2''"
  by (simp add: decimal.simps digit_def)

lemma url0:
  "fetchQueued_url env_queue cfg0 (Fin 2) =
     ''https://db.example/rest/v1/payout_requests?status=eq.queued&chain=eq.XRP&order=requested_at.asc&limit=2''"
  by (simp add: fetchQueued_url_def template_def cfg0_def num_to_string_def int_to_string_def)

theorem fetchQueued_spec_witness:
  "fetchQueued env_queue cfg0 (Some (Fin 2)) s0 =
     (Normal (JArr [row0, row0, row0]),
      s0\<lparr>trace :=
          [Fetch (JStr ''https://db.example/rest/v1/payout_requests?status=eq.queued&chain=eq.XRP&order=requested_at.asc&limit=2'')
             (JObj [(''headers'',
                     JObj [(''apikey'', JStr ''KEY''), (''Authorization'', JStr ''Bearer KEY''),
                           (''Content-Type'', JStr ''application/json'')])])
             (Normal queue_response)]\<rparr>)
   \<and> fst (fetchQueued env_webhook_down cfg0 (Some (Fin 2)) s0) =
       Throw (new_Error ''Fetch queued failed: 500 boom'')"
proof -
  let ?init = "JObj [(''headers'', supabaseHeaders cfg0)]"
  have hd: "supabaseHeaders cfg0 =
      JObj [(''apikey'', JStr ''KEY''), (''Authorization'', JStr ''Bearer KEY''),
            (''Content-Type'', JStr ''application/json'')]"
    by (simp add: supabaseHeaders_def cfg0_def env_val_def template_def)
  have r: "fetch env_queue (trace s0) (JStr (fetchQueued_url env_queue cfg0 (Fin 2))) ?init = Normal queue_response"
    by (simp add: env_queue_def)
  have q: "200 \<le> res_status queue_response \<and> res_status queue_response \<le> 299
           \<and> res_json queue_response = Inr (JArr [row0, row0, row0])"
    by (simp add: queue_response_def)
  from fetchQueued_spec[of env_queue cfg0 "Some (Fin 2)" s0] r q
  have "fst (fetchQueued env_queue cfg0 (Some (Fin 2)) s0) = Normal (JArr [row0, row0, row0])"
    and "snd (fetchQueued env_queue cfg0 (Some (Fin 2)) s0) =
      s0\<lparr>trace := trace s0 @ [Fetch (JStr (fetchQueued_url env_queue cfg0 (Fin 2))) ?init (Normal queue_response)]\<rparr>"
    by simp_all
  then have a: "fetchQueued env_queue cfg0 (Some (Fin 2)) s0 =
     (Normal (JArr [row0, row0, row0]),
      s0\<lparr>trace := trace s0 @ [Fetch (JStr (fetchQueued_url env_queue cfg0 (Fin 2))) ?init (Normal queue_response)]\<rparr>)"
    by (simp add: prod_eq_iff)
  have r2: "fetch env_webhook_down (trace s0) (JStr (fetchQueued_url env_webhook_down cfg0 (Fin 2))) ?init
      = Normal failing_response"
    by (simp add: env_webhook_down_def)
  have f: "\<not> (200 \<le> res_status failing_response \<and> res_status failing_response \<le> 299)
           \<and> res_text failing_response = Inr ''boom''"
    by (simp add: failing_response_def)
  from fetchQueued_spec[of env_webhook_down cfg0 "Some (Fin 2)" s0] r2 f
  have "fst (fetchQueued env_webhook_down cfg0 (Some (Fin 2)) s0) =
       Throw (new_Error (''Fetch queued failed: '' @ decimal (res_status failing_response) @ '' '' @ ''boom''))"
    by simp
  then have b: "fst (fetchQueued env_webhook_down cfg0 (Some (Fin 2)) s0) =
       Throw (new_Error ''Fetch queued failed: 500 boom'')"
    by (simp add: failing_response_def)
  from a b show ?thesis
    by (simp add: url0 hd s0_def)
qed

section \<open>The manual trigger\<close>

text \<open>
  C9. With a control token configured (set and not empty), \<^verbatim>\<open>POST /process\<close> answers 401
  and schedules nothing unless the \<^verbatim>\<open>Authorization\<close> header is exactly \<^verbatim>\<open>Bearer \<close> followed by
  the token; on an exact match, and for every request when no token is configured, it
  schedules one \<^verbatim>\<open>pollLoop\<close> in 50 ms and answers \<^verbatim>\<open>{ok: true, started: true}\<close> at once. The
  handler does not run the poll cycle and does not depend on the environment.
\<close>

theorem post_process_spec:
  "(\<forall>t. CONTROL_BEARER_TOKEN cfg = Some t \<and> t \<noteq> [] \<and> authorization \<noteq> JStr (''Bearer '' @ t) \<longrightarrow>
        post_process cfg authorization s =
          (Normal (),
           s\<lparr>trace := trace s @
              [Respond 401 (JObj [(''ok'', JBool False), (''error'', JStr ''Unauthorized'')])]\<rparr>))
   \<and> (\<forall>t. CONTROL_BEARER_TOKEN cfg = Some t \<and> t \<noteq> [] \<and> authorization = JStr (''Bearer '' @ t) \<longrightarrow>
        post_process cfg authorization s =
          (Normal (),
           s\<lparr>trace := trace s @
              [SetTimeout ''pollLoop'' 50,
               Respond 200 (JObj [(''ok'', JBool True), (''started'', JBool True)])]\<rparr>))
   \<and> (CONTROL_BEARER_TOKEN cfg = None \<or> CONTROL_BEARER_TOKEN cfg = Some [] \<longrightarrow>
        post_process cfg authorization s =
          (Normal (),
           s\<lparr>trace := trace s @
              [SetTimeout ''pollLoop'' 50,
               Respond 200 (JObj [(''ok'', JBool True), (''started'', JBool True)])]\<rparr>))"
  by (auto simp add: post_process_def env_val_def template_def js_or_def emit_def bind_def)

theorem post_process_spec_witness:
  "CONTROL_BEARER_TOKEN cfg0 = Some ''tok''
   \<and> post_process cfg0 JUndefined s0 =
       (Normal (),
        s0\<lparr>trace := [Respond 401 (JObj [(''ok'', JBool False), (''error'', JStr ''Unauthorized'')])]\<rparr>)
   \<and> post_process cfg0 (JStr ''Bearer tok '') s0 =
       (Normal (),
        s0\<lparr>trace := [Respond 401 (JObj [(''ok'', JBool False), (''error'', JStr ''Unauthorized'')])]\<rparr>)
   \<and> post_process cfg0 (JStr ''Bearer tok'') s0 =
       (Normal (),
        s0\<lparr>trace := [SetTimeout ''pollLoop'' 50,
                      Respond 200 (JObj [(''ok'', JBool True), (''started'', JBool True)])]\<rparr>)
   \<and> CONTROL_BEARER_TOKEN cfg_bare = None
   \<and> post_process cfg_bare JUndefined s0 =
       (Normal (),
        s0\<lparr>trace := [SetTimeout ''pollLoop'' 50,
                      Respond 200 (JObj [(''ok'', JBool True), (''started'', JBool True)])]\<rparr>)"
proof -
  have tok: "CONTROL_BEARER_TOKEN cfg0 = Some ''tok''" and bare: "CONTROL_BEARER_TOKEN cfg_bare = None"
    by (simp_all add: cfg0_def cfg_bare_def)
  have tr: "trace s0 = []"
    by (simp add: s0_def)
  from post_process_spec[of cfg0 JUndefined s0] tok tr
  have a: "post_process cfg0 JUndefined s0 =
       (Normal (),
        s0\<lparr>trace := [Respond 401 (JObj [(''ok'', JBool False), (''error'', JStr ''Unauthorized'')])]\<rparr>)"
    by simp
  from post_process_spec[of cfg0 "JStr ''Bearer tok ''" s0] tok tr
  have b: "post_process cfg0 (JStr ''Bearer tok '') s0 =
       (Normal (),
        s0\<lparr>trace := [Respond 401 (JObj [(''ok'', JBool False), (''error'', JStr ''Unauthorized'')])]\<rparr>)"
    by simp
  from post_process_spec[of cfg0 "JStr ''Bearer tok''" s0] tok tr
  have c: "post_process cfg0 (JStr ''Bearer tok'') s0 =
       (Normal (),
        s0\<lparr>trace := [SetTimeout ''pollLoop'' 50,
                      Respond 200 (JObj [(''ok'', JBool True), (''started'', JBool True)])]\<rparr>)"
    by simp
  from post_process_spec[of cfg_bare JUndefined s0] bare tr
  have d: "post_process cfg_bare JUndefined s0 =
       (Normal (),
        s0\<lparr>trace := [SetTimeout ''pollLoop'' 50,
                      Respond 200 (JObj [(''ok'', JBool True), (''started'', JBool True)])]\<rparr>)"
    by simp
  from tok bare a b c d show ?thesis
    by blast
qed

section \<open>The poll cycle\<close>

lemma pollLoop_eq:
  "pollLoop env cfg s =
     (case connection_check env s of
        (True, s') \<Rightarrow> poll_batch env cfg s'
      | (False, s') \<Rightarrow>
          (case connectClient env cfg s' of
             (Normal x, s1) \<Rightarrow> poll_batch env cfg s1
           | (Throw e, s1) \<Rightarrow>
               (Normal (),
                s1\<lparr>trace := trace s1 @
                   [ConsoleError [JStr ''[XRPL] reconnect failed:'', JStr (err_message e)]]\<rparr>)
           | (Suspended, s1) \<Rightarrow> (Suspended, s1)))"
  by (simp add: pollLoop_def poll_batch_def connection_check_def bind_def read_def return_def
        call_def Let_def try_catch_def console_error_def emit_def
        split: option.split prod.split completion.split)

lemma fetchQueued_state:
  "snd (fetchQueued env cfg limit_arg s) =
     s\<lparr>trace := trace s @
        [Fetch (JStr (fetchQueued_url env cfg (case limit_arg of None \<Rightarrow> Fin 5 | Some n \<Rightarrow> n)))
           (JObj [(''headers'', supabaseHeaders cfg)])
           (fetch env (trace s)
              (JStr (fetchQueued_url env cfg (case limit_arg of None \<Rightarrow> Fin 5 | Some n \<Rightarrow> n)))
              (JObj [(''headers'', supabaseHeaders cfg)]))]\<rparr>"
  by (simp add: fetchQueued_def Let_def bind_call bind_lift throw_def lift_def
        split: completion.split sum.split)

lemma dispatch_Cons:
  "dispatch env cfg (row # rows) s =
     (if js_ge (inFlight s) (StringToNumber env (MAX_CONCURRENT cfg)) then (Normal (), s)
      else dispatch env cfg rows (snd (processOne (unawaited env) cfg row s)))"
  by (simp add: bind_def read_def return_def no_await_def)

declare dispatch.simps(2) [simp del]

lemma dispatch_run:
  assumes cap: "StringToNumber env (MAX_CONCURRENT cfg) = Fin (of_int c)"
      and rows: "\<forall>row \<in> set rows. \<not> nullish row"
  shows "dispatch env cfg rows s =
           (Normal (),
            s\<lparr>inFlight := inFlight s + int (min (length rows) (nat (c - inFlight s))),
               trace := trace s @
                 map (pending_report cfg) (take (min (length rows) (nat (c - inFlight s))) rows)\<rparr>)"
  using rows
proof (induction rows arbitrary: s)
  case Nil
  show ?case by (simp add: return_def)
next
  case (Cons row rows)
  show ?case
  proof (cases "c \<le> inFlight s")
    case True
    then show ?thesis
      by (simp add: dispatch_Cons cap)
  next
    case False
    let ?s' = "s\<lparr>inFlight := inFlight s + 1, trace := trace s @ [pending_report cfg row]\<rparr>"
    from Cons.prems have row: "\<not> nullish row" and rest: "\<forall>row \<in> set rows. \<not> nullish row"
      by simp_all
    from False row have "dispatch env cfg (row # rows) s = dispatch env cfg rows ?s'"
      by (simp add: dispatch_Cons cap processOne_unawaited pending_report_def)
    also have "\<dots> = (Normal (),
            ?s'\<lparr>inFlight := inFlight ?s' + int (min (length rows) (nat (c - inFlight ?s'))),
               trace := trace ?s' @
                 map (pending_report cfg) (take (min (length rows) (nat (c - inFlight ?s'))) rows)\<rparr>)"
      using Cons.IH[OF rest, of ?s'] .
    also have "(Normal (),
            ?s'\<lparr>inFlight := inFlight ?s' + int (min (length rows) (nat (c - inFlight ?s'))),
               trace := trace ?s' @
                 map (pending_report cfg) (take (min (length rows) (nat (c - inFlight ?s'))) rows)\<rparr>)
        = (Normal (),
            s\<lparr>inFlight := inFlight s + int (min (length (row # rows)) (nat (c - inFlight s))),
               trace := trace s @
                 map (pending_report cfg) (take (min (length (row # rows)) (nat (c - inFlight s))) (row # rows))\<rparr>)"
    proof -
      from False have "nat (c - inFlight s) = Suc (nat (c - (inFlight s + 1)))"
        by linarith
      then have "min (length (row # rows)) (nat (c - inFlight s)) =
          Suc (min (length rows) (nat (c - (inFlight s + 1))))"
        by simp
      then show ?thesis
        by simp
    qed
    finally show ?thesis .
  qed
qed


lemma dispatch_quiet:
  "\<exists>n evs. dispatch env cfg rows s = (Normal (), s\<lparr>inFlight := n, trace := trace s @ evs\<rparr>)
          \<and> (\<forall>ev \<in> set evs. \<not> connect_call ev)"
proof (induction rows arbitrary: s)
  case Nil
  show ?case
    by (intro exI[of _ "inFlight s"] exI[of _ "[]"]) (simp add: return_def)
next
  case (Cons row rows)
  show ?case
  proof (cases "js_ge (inFlight s) (StringToNumber env (MAX_CONCURRENT cfg))")
    case True
    then show ?thesis
      by (intro exI[of _ "inFlight s"] exI[of _ "[]"]) (simp add: dispatch_Cons)
  next
    case False
    have "\<exists>m pre. snd (processOne (unawaited env) cfg row s) = s\<lparr>inFlight := m, trace := trace s @ pre\<rparr>
            \<and> (\<forall>ev \<in> set pre. \<not> connect_call ev)"
    proof (cases "nullish row")
      case True
      then obtain a1 a2 where "processOne (unawaited env) cfg row s =
          (Normal (), s\<lparr>trace := trace s @ [ConsoleError a1, ConsoleError a2]\<rparr>)"
        using processOne_nullish[of row "unawaited env" cfg s] by blast
      then show ?thesis
        by (intro exI[of _ "inFlight s"] exI[of _ "[ConsoleError a1, ConsoleError a2]"]) simp
    next
      case False
      then show ?thesis
        by (intro exI[of _ "inFlight s + 1"]
              exI[of _ "[Fetch (webhook_url cfg) (webhook_init (processing_report row)) Suspended]"])
           (simp add: processOne_unawaited)
    qed
    then obtain m pre where
      s': "snd (processOne (unawaited env) cfg row s) = s\<lparr>inFlight := m, trace := trace s @ pre\<rparr>"
      and pre: "\<forall>ev \<in> set pre. \<not> connect_call ev"
      by blast
    from Cons.IH[of "s\<lparr>inFlight := m, trace := trace s @ pre\<rparr>"] obtain n evs where
      d: "dispatch env cfg rows (s\<lparr>inFlight := m, trace := trace s @ pre\<rparr>) =
          (Normal (), s\<lparr>inFlight := m, trace := trace s @ pre\<rparr>
             \<lparr>inFlight := n, trace := trace (s\<lparr>inFlight := m, trace := trace s @ pre\<rparr>) @ evs\<rparr>)"
      and evs: "\<forall>ev \<in> set evs. \<not> connect_call ev"
      by blast
    from False s' d pre evs show ?thesis
      by (intro exI[of _ n] exI[of _ "pre @ evs"]) (auto simp add: dispatch_Cons)
  qed
qed

lemma poll_batch_full:
  "js_ge (inFlight s) (StringToNumber env (MAX_CONCURRENT cfg)) \<Longrightarrow> poll_batch env cfg s = (Normal (), s)"
  by (simp add: poll_batch_def bind_def read_def return_def)

lemma poll_batch_fetch:
  "\<not> js_ge (inFlight s) (StringToNumber env (MAX_CONCURRENT cfg)) \<Longrightarrow>
   poll_batch env cfg s =
     (case fetchQueued env cfg (Some (StringToNumber env (MAX_CONCURRENT cfg))) s of
        (Normal rows, s2) \<Rightarrow>
          (case iterate ''rows'' rows of
             Inr rs \<Rightarrow> dispatch env cfg rs s2
           | Inl e \<Rightarrow> (Normal (), s2\<lparr>trace := trace s2 @ [ConsoleError [JStr ''[POLL] error:'', JStr (err_message e)]]\<rparr>))
      | (Throw e, s2) \<Rightarrow>
          (Normal (), s2\<lparr>trace := trace s2 @ [ConsoleError [JStr ''[POLL] error:'', JStr (err_message e)]]\<rparr>)
      | (Suspended, s2) \<Rightarrow> (Suspended, s2))"
proof -
  have d: "c = Normal ()" if "dispatch env cfg rs s2 = (c, s3)" for rs s2 c s3
    using dispatch_quiet[of env cfg rs s2] that by auto
  show ?thesis if "\<not> js_ge (inFlight s) (StringToNumber env (MAX_CONCURRENT cfg))"
    using that
    by (auto simp add: poll_batch_def bind_def read_def return_def try_catch_def lift_def of_sum_def
          console_error_def emit_def
          split: prod.split completion.split sum.split dest: d)
qed

lemma poll_batch_quiet:
  "\<exists>n evs. snd (poll_batch env cfg s) = s\<lparr>inFlight := n, trace := trace s @ evs\<rparr>
          \<and> (\<forall>ev \<in> set evs. \<not> connect_call ev)
          \<and> (\<not> js_ge (inFlight s) (StringToNumber env (MAX_CONCURRENT cfg)) \<longrightarrow>
               (\<exists>r tl. evs = Fetch (JStr (fetchQueued_url env cfg (StringToNumber env (MAX_CONCURRENT cfg))))
                                (JObj [(''headers'', supabaseHeaders cfg)]) r # tl))"
proof (cases "js_ge (inFlight s) (StringToNumber env (MAX_CONCURRENT cfg))")
  case True
  then show ?thesis
    by (intro exI[of _ "inFlight s"] exI[of _ "[]"]) (simp add: poll_batch_full)
next
  case False
  let ?cap = "StringToNumber env (MAX_CONCURRENT cfg)"
  let ?get = "Fetch (JStr (fetchQueued_url env cfg ?cap)) (JObj [(''headers'', supabaseHeaders cfg)])
                (fetch env (trace s) (JStr (fetchQueued_url env cfg ?cap)) (JObj [(''headers'', supabaseHeaders cfg)]))"
  let ?s2 = "s\<lparr>trace := trace s @ [?get]\<rparr>"
  have st: "snd (fetchQueued env cfg (Some ?cap) s) = ?s2"
    by (simp add: fetchQueued_state)
  have log: ?thesis
    if "poll_batch env cfg s =
          (Normal (), ?s2\<lparr>trace := trace ?s2 @ [ConsoleError [JStr ''[POLL] error:'', JStr (err_message e)]]\<rparr>)"
    for e
    using that False
    by (intro exI[of _ "inFlight s"]
          exI[of _ "[?get, ConsoleError [JStr ''[POLL] error:'', JStr (err_message e)]]"]) simp
  show ?thesis
  proof (cases "fst (fetchQueued env cfg (Some ?cap) s)")
    case (Throw e)
    with st False have "poll_batch env cfg s =
          (Normal (), ?s2\<lparr>trace := trace ?s2 @ [ConsoleError [JStr ''[POLL] error:'', JStr (err_message e)]]\<rparr>)"
      by (cases "fetchQueued env cfg (Some ?cap) s") (simp add: poll_batch_fetch)
    then show ?thesis by (rule log)
  next
    case Suspended
    with st False have "poll_batch env cfg s = (Suspended, ?s2)"
      by (cases "fetchQueued env cfg (Some ?cap) s") (simp add: poll_batch_fetch)
    with False show ?thesis
      by (intro exI[of _ "inFlight s"] exI[of _ "[?get]"]) simp
  next
    case (Normal rows)
    show ?thesis
    proof (cases "iterate ''rows'' rows")
      case (Inl e)
      with Normal st False have "poll_batch env cfg s =
          (Normal (), ?s2\<lparr>trace := trace ?s2 @ [ConsoleError [JStr ''[POLL] error:'', JStr (err_message e)]]\<rparr>)"
        by (cases "fetchQueued env cfg (Some ?cap) s") (simp add: poll_batch_fetch)
      then show ?thesis by (rule log)
    next
      case (Inr rs)
      with Normal st False have pb: "poll_batch env cfg s = dispatch env cfg rs ?s2"
        by (cases "fetchQueued env cfg (Some ?cap) s") (simp add: poll_batch_fetch)
      from dispatch_quiet[of env cfg rs ?s2] obtain n evs where
        "dispatch env cfg rs ?s2 = (Normal (), ?s2\<lparr>inFlight := n, trace := trace ?s2 @ evs\<rparr>)"
        and "\<forall>ev \<in> set evs. \<not> connect_call ev"
        by blast
      with pb False show ?thesis
        by (intro exI[of _ n] exI[of _ "?get # evs"]) simp
    qed
  qed
qed


lemma pollLoop_connected:
  "fst (connection_check env s) \<Longrightarrow> pollLoop env cfg s = poll_batch env cfg (snd (connection_check env s))"
  by (cases "connection_check env s") (simp add: pollLoop_eq)

lemma pollLoop_reconnected:
  "\<not> fst (connection_check env s) \<Longrightarrow>
   connectClient env cfg (snd (connection_check env s)) = (Normal x, s1) \<Longrightarrow>
   pollLoop env cfg s = poll_batch env cfg s1"
  by (cases "connection_check env s") (simp add: pollLoop_eq)

lemma pollLoop_aborted:
  "\<not> fst (connection_check env s) \<Longrightarrow>
   connectClient env cfg (snd (connection_check env s)) = (Throw e, s1) \<Longrightarrow>
   pollLoop env cfg s =
     (Normal (), s1\<lparr>trace := trace s1 @
        [ConsoleError [JStr ''[XRPL] reconnect failed:'', JStr (err_message e)]]\<rparr>)"
  by (cases "connection_check env s") (simp add: pollLoop_eq)

lemma connection_check_state:
  "\<exists>pre. snd (connection_check env s) = s\<lparr>trace := trace s @ pre\<rparr> \<and> (\<forall>ev \<in> set pre. \<not> connect_call ev)"
proof (cases "client s")
  case None
  then show ?thesis
    by (intro exI[of _ "[]"]) (simp add: connection_check_def)
next
  case (Some u)
  then show ?thesis
    by (intro exI[of _ "[IsConnected u (Normal (Client_isConnected env (trace s) u))]"])
       (simp add: connection_check_def)
qed

text \<open>
  C6. One \<^verbatim>\<open>pollLoop\<close> invocation. With a live session it opens no session. Without one it
  calls \<^verbatim>\<open>connectClient\<close>, and when that throws the cycle ends with the log of the failure
  and nothing else. Once a session is there (it was live, or the reconnection succeeded):
  with the in-flight count at or above the cap the cycle ends at once, without a fetch;
  otherwise the next call is the GET of the queue with \<^verbatim>\<open>limit=\<close> the cap, and when it
  returns an array of rows, the rows dispatched are the first \<open>min (length rows) (cap -
  inFlight)\<close> of them: each is left suspended at its "processing" report, the in-flight
  count has grown by their number, and the cycle returns without waiting for any of them.
\<close>

theorem pollLoop_spec:
  "(fst (connection_check env s) \<longrightarrow>
      (\<forall>ev \<in> set (new_events s (snd (pollLoop env cfg s))). \<not> connect_call ev))
   \<and> (\<not> fst (connection_check env s) \<longrightarrow>
        (\<forall>e s1. connectClient env cfg (snd (connection_check env s)) = (Throw e, s1) \<longrightarrow>
           pollLoop env cfg s =
             (Normal (), s1\<lparr>trace := trace s1 @
                [ConsoleError [JStr ''[XRPL] reconnect failed:'', JStr (err_message e)]]\<rparr>)))
   \<and> (\<forall>s1. (fst (connection_check env s) \<and> s1 = snd (connection_check env s))
          \<or> (\<not> fst (connection_check env s)
              \<and> connectClient env cfg (snd (connection_check env s)) = (Normal (), s1)) \<longrightarrow>
        (js_ge (inFlight s1) (cap env cfg) \<longrightarrow> pollLoop env cfg s = (Normal (), s1))
        \<and> (\<not> js_ge (inFlight s1) (cap env cfg) \<longrightarrow>
             (\<exists>r tl. new_events s1 (snd (pollLoop env cfg s)) =
                       Fetch (JStr (fetchQueued_url env cfg (cap env cfg)))
                         (JObj [(''headers'', supabaseHeaders cfg)]) r # tl)
           \<and> (\<forall>rows s2 c.
                 fetchQueued env cfg (Some (cap env cfg)) s1 = (Normal (JArr rows), s2)
                 \<and> cap env cfg = Fin (of_int c) \<and> (\<forall>row \<in> set rows. \<not> nullish row) \<longrightarrow>
                 pollLoop env cfg s =
                   (Normal (),
                    s2\<lparr>inFlight := inFlight s2 + int (min (length rows) (nat (c - inFlight s2))),
                       trace := trace s2 @
                         map (pending_report cfg)
                           (take (min (length rows) (nat (c - inFlight s2))) rows)\<rparr>))))"
proof (intro conjI allI impI)
  show "\<forall>ev \<in> set (new_events s (snd (pollLoop env cfg s))). \<not> connect_call ev"
    if up: "fst (connection_check env s)"
  proof -
    obtain pre where s': "snd (connection_check env s) = s\<lparr>trace := trace s @ pre\<rparr>"
      and pre: "\<forall>ev \<in> set pre. \<not> connect_call ev"
      using connection_check_state by blast
    obtain n evs where "snd (poll_batch env cfg (s\<lparr>trace := trace s @ pre\<rparr>)) =
        s\<lparr>trace := trace s @ pre\<rparr>\<lparr>inFlight := n, trace := trace (s\<lparr>trace := trace s @ pre\<rparr>) @ evs\<rparr>"
      and evs: "\<forall>ev \<in> set evs. \<not> connect_call ev"
      using poll_batch_quiet[of env cfg "s\<lparr>trace := trace s @ pre\<rparr>"] by blast
    with up s' have "new_events s (snd (pollLoop env cfg s)) = pre @ evs"
      by (simp add: pollLoop_connected new_events_def)
    with pre evs show ?thesis by auto
  qed
  show "pollLoop env cfg s =
          (Normal (), s1\<lparr>trace := trace s1 @
             [ConsoleError [JStr ''[XRPL] reconnect failed:'', JStr (err_message e)]]\<rparr>)"
    if "\<not> fst (connection_check env s)"
      and "connectClient env cfg (snd (connection_check env s)) = (Throw e, s1)" for e s1
    using that by (rule pollLoop_aborted)
next
  fix s1
  assume ready: "(fst (connection_check env s) \<and> s1 = snd (connection_check env s))
          \<or> (\<not> fst (connection_check env s)
              \<and> connectClient env cfg (snd (connection_check env s)) = (Normal (), s1))"
  then have batch: "pollLoop env cfg s = poll_batch env cfg s1"
    using pollLoop_connected pollLoop_reconnected by blast
  show "pollLoop env cfg s = (Normal (), s1)" if "js_ge (inFlight s1) (cap env cfg)"
    using that batch by (simp add: poll_batch_full cap_def)
  show "\<exists>r tl. new_events s1 (snd (pollLoop env cfg s)) =
                       Fetch (JStr (fetchQueued_url env cfg (cap env cfg)))
                         (JObj [(''headers'', supabaseHeaders cfg)]) r # tl"
    if "\<not> js_ge (inFlight s1) (cap env cfg)"
  proof -
    from that poll_batch_quiet[of env cfg s1] obtain n evs r tl where
      "snd (poll_batch env cfg s1) = s1\<lparr>inFlight := n, trace := trace s1 @ evs\<rparr>"
      and "evs = Fetch (JStr (fetchQueued_url env cfg (cap env cfg)))
                         (JObj [(''headers'', supabaseHeaders cfg)]) r # tl"
      unfolding cap_def by blast
    with batch show ?thesis
      by (simp add: new_events_def)
  qed
  show "pollLoop env cfg s =
          (Normal (),
           s2\<lparr>inFlight := inFlight s2 + int (min (length rows) (nat (c - inFlight s2))),
              trace := trace s2 @
                map (pending_report cfg) (take (min (length rows) (nat (c - inFlight s2))) rows)\<rparr>)"
    if full: "\<not> js_ge (inFlight s1) (cap env cfg)"
      and h: "fetchQueued env cfg (Some (cap env cfg)) s1 = (Normal (JArr rows), s2)
                 \<and> cap env cfg = Fin (of_int c) \<and> (\<forall>row \<in> set rows. \<not> nullish row)"
    for rows s2 c
  proof -
    from h have c: "StringToNumber env (MAX_CONCURRENT cfg) = Fin (of_int c)"
      and rows: "\<forall>row \<in> set rows. \<not> nullish row"
      and f: "fetchQueued env cfg (Some (StringToNumber env (MAX_CONCURRENT cfg))) s1 = (Normal (JArr rows), s2)"
      unfolding cap_def by blast+
    from full f have "poll_batch env cfg s1 = dispatch env cfg rows s2"
      by (simp add: poll_batch_fetch cap_def)
    with batch dispatch_run[OF c rows, of s2] show ?thesis
      by simp
  qed
qed


lemma connectClient_bare:
  "connectClient env cfg_bare s = (Throw (new_Error ''No XRPL server reachable''), s)"
  by (simp add: connectClient_eq endpoints_def WS_DEFAULTS_eq cfg_bare_def env_val_def
        connect_loop.simps throw_def)

lemma cap0: "cap env_queue cfg0 = Fin (of_int 2)"
  by (simp add: cap_def env_queue_def env0_def MAX_CONCURRENT_def cfg0_def)

lemma check0:
  "connection_check env_queue (s0\<lparr>inFlight := n\<rparr>) =
     (True, s0\<lparr>inFlight := n, trace := [IsConnected (JStr ''wss://a.example'') (Normal True)]\<rparr>)"
  by (simp add: connection_check_def env_queue_def env0_def s0_def)

lemma fetch0:
  "fetchQueued env_queue cfg0 (Some (cap env_queue cfg0))
       (s0\<lparr>inFlight := 0, trace := [IsConnected (JStr ''wss://a.example'') (Normal True)]\<rparr>) =
     (Normal (JArr [row0, row0, row0]),
      s0\<lparr>inFlight := 0,
         trace := [IsConnected (JStr ''wss://a.example'') (Normal True),
                   Fetch (JStr (fetchQueued_url env_queue cfg0 (Fin 2)))
                     (JObj [(''headers'', supabaseHeaders cfg0)]) (Normal queue_response)]\<rparr>)"
proof -
  have "fetch env_queue h url (JObj [(''headers'', hs)]) = Normal queue_response" for h url hs
    by (simp add: env_queue_def)
  moreover have "res_ok queue_response" "res_json queue_response = Inr (JArr [row0, row0, row0])"
    by (simp_all add: res_ok_def queue_response_def)
  moreover have "cap env_queue cfg0 = Fin 2"
    by (simp add: cap0)
  ultimately show ?thesis
    by (simp add: fetchQueued_def Let_def bind_call lift_def of_sum_def s0_def)
qed

theorem pollLoop_spec_witness:
  "fst (connection_check env_queue s0)
   \<and> \<not> js_ge (inFlight s0) (cap env_queue cfg0)
   \<and> pollLoop env_queue cfg0 s0 =
       (Normal (),
        s0\<lparr>inFlight := 2,
           trace := [IsConnected (JStr ''wss://a.example'') (Normal True),
                     Fetch (JStr ''https://db.example/rest/v1/payout_requests?status=eq.queued&chain=eq.XRP&order=requested_at.asc&limit=2'')
                       (JObj [(''headers'', supabaseHeaders cfg0)]) (Normal queue_response),
                     pending_report cfg0 row0, pending_report cfg0 row0]\<rparr>)
   \<and> js_ge (inFlight (s0\<lparr>inFlight := 2\<rparr>)) (cap env_queue cfg0)
   \<and> pollLoop env_queue cfg0 (s0\<lparr>inFlight := 2\<rparr>) =
       (Normal (),
        s0\<lparr>inFlight := 2, trace := [IsConnected (JStr ''wss://a.example'') (Normal True)]\<rparr>)
   \<and> \<not> fst (connection_check env0 (s0\<lparr>client := None\<rparr>))
   \<and> pollLoop env0 cfg_bare (s0\<lparr>client := None\<rparr>) =
       (Normal (),
        s0\<lparr>client := None,
           trace := [ConsoleError [JStr ''[XRPL] reconnect failed:'', JStr ''No XRPL server reachable'']]\<rparr>)"
proof -
  let ?s1 = "s0\<lparr>inFlight := 0, trace := [IsConnected (JStr ''wss://a.example'') (Normal True)]\<rparr>"
  have s0n: "s0\<lparr>inFlight := 0\<rparr> = s0"
    by (simp add: s0_def)
  have up: "fst (connection_check env_queue s0)" and s1: "snd (connection_check env_queue s0) = ?s1"
    using check0[of 0] by (simp_all add: s0n)
  have room: "\<not> js_ge (inFlight s0) (cap env_queue cfg0)" "\<not> js_ge (inFlight ?s1) (cap env_queue cfg0)"
    by (simp_all add: cap0 s0_def)
  have rows: "\<forall>row \<in> set [row0, row0, row0]. \<not> nullish row"
    by (simp add: row0_def)
  note spec = pollLoop_spec[of env_queue s0 cfg0, THEN conjunct2, THEN conjunct2, rule_format, of ?s1]
  from up s1 have ready: "(fst (connection_check env_queue s0) \<and> ?s1 = snd (connection_check env_queue s0))
          \<or> (\<not> fst (connection_check env_queue s0)
              \<and> connectClient env_queue cfg0 (snd (connection_check env_queue s0)) = (Normal (), ?s1))"
    by simp
  from spec[OF ready, THEN conjunct2, rule_format, OF room(2), THEN conjunct2, rule_format,
      of "[row0, row0, row0]" _ 2] fetch0 cap0 rows
  have run: "pollLoop env_queue cfg0 s0 =
       (Normal (),
        s0\<lparr>inFlight := 2,
           trace := [IsConnected (JStr ''wss://a.example'') (Normal True),
                     Fetch (JStr (fetchQueued_url env_queue cfg0 (Fin 2)))
                       (JObj [(''headers'', supabaseHeaders cfg0)]) (Normal queue_response),
                     pending_report cfg0 row0, pending_report cfg0 row0]\<rparr>)"
    by (simp add: s0_def)
  have full: "js_ge (inFlight (s0\<lparr>inFlight := 2\<rparr>)) (cap env_queue cfg0)"
    by (simp add: cap0)
  have up2: "fst (connection_check env_queue (s0\<lparr>inFlight := 2\<rparr>))"
    and s2: "snd (connection_check env_queue (s0\<lparr>inFlight := 2\<rparr>)) =
      s0\<lparr>inFlight := 2, trace := [IsConnected (JStr ''wss://a.example'') (Normal True)]\<rparr>"
    using check0[of 2] by simp_all
  from pollLoop_spec[of env_queue "s0\<lparr>inFlight := 2\<rparr>" cfg0, THEN conjunct2, THEN conjunct2, rule_format,
      of "s0\<lparr>inFlight := 2, trace := [IsConnected (JStr ''wss://a.example'') (Normal True)]\<rparr>"]
    up2 s2 cap0
  have run2: "pollLoop env_queue cfg0 (s0\<lparr>inFlight := 2\<rparr>) =
       (Normal (),
        s0\<lparr>inFlight := 2, trace := [IsConnected (JStr ''wss://a.example'') (Normal True)]\<rparr>)"
    by simp
  have down: "\<not> fst (connection_check env0 (s0\<lparr>client := None\<rparr>))"
    and s3: "snd (connection_check env0 (s0\<lparr>client := None\<rparr>)) = s0\<lparr>client := None\<rparr>"
    by (simp_all add: connection_check_def)
  from pollLoop_spec[of env0 "s0\<lparr>client := None\<rparr>" cfg_bare, THEN conjunct2, THEN conjunct1, rule_format,
      OF down, of "new_Error ''No XRPL server reachable''" "s0\<lparr>client := None\<rparr>"]
    s3 connectClient_bare[of env0 "s0\<lparr>client := None\<rparr>"]
  have run3: "pollLoop env0 cfg_bare (s0\<lparr>client := None\<rparr>) =
       (Normal (),
        s0\<lparr>client := None,
           trace := [ConsoleError [JStr ''[XRPL] reconnect failed:'', JStr ''No XRPL server reachable'']]\<rparr>)"
    by (simp add: new_Error_def s0_def)
  from up room(1) run full run2 down run3 show ?thesis
    by (simp add: url0)
qed

end
